theory Spec2Isabelle
  imports Complex_Main "HOL-Library.Sublist"
begin

section \<open>Strings\<close>

text \<open>
  A JavaScript string is modelled as the \<^typ>\<open>string\<close> of its UTF-8 bytes. Model ids,
  pricing keys and the streaming envelope (\<open>data: \<close>, \<open>[DONE]\<close>) are ASCII, where a byte
  is a character and \<open>length\<close> is the string's length; \<open>toLowerCase\<close> is written for
  ASCII: it maps \<open>A\<close>..\<open>Z\<close> to \<open>a\<close>..\<open>z\<close> and leaves every other byte alone.
  \<open>trim\<close> strips every white space and line terminator of ECMAScript.
\<close>

definition toLowerChar :: "char \<Rightarrow> char" where
  "toLowerChar c =
     (case map_of (zip ''ABCDEFGHIJKLMNOPQRSTUVWXYZ'' ''abcdefghijklmnopqrstuvwxyz'') c of
        Some l \<Rightarrow> l
      | None \<Rightarrow> c)"

definition toLowerCase :: "string \<Rightarrow> string" where
  "toLowerCase s = map toLowerChar s"

text \<open>\<open>s.includes(k)\<close>: \<open>k\<close> occurs in \<open>s\<close> as a contiguous run.\<close>

fun str_includes :: "string \<Rightarrow> string \<Rightarrow> bool" where
  "str_includes [] k = (k = [])"
| "str_includes (c # s) k = (prefix k (c # s) \<or> str_includes s k)"

text \<open>\<open>s.replace(pat, rep)\<close> with a string pattern: the first occurrence only.\<close>

fun str_replace :: "string \<Rightarrow> string \<Rightarrow> string \<Rightarrow> string" where
  "str_replace pat rep [] = (if pat = [] then rep else [])"
| "str_replace pat rep (c # s) =
     (if prefix pat (c # s) then rep @ drop (length pat) (c # s)
      else c # str_replace pat rep s)"

text \<open>
  The white space and line terminators \<open>String.prototype.trim\<close> strips, each as its
  UTF-8 bytes: U+0009 to U+000D, U+0020, U+00A0, U+1680, U+2000 to U+200A, U+2028,
  U+2029, U+202F, U+205F, U+3000 and U+FEFF.
\<close>

definition JS_WHITE_SPACE :: "string list" where
  "JS_WHITE_SPACE =
     [[CHR 0x09], [CHR 0x0A], [CHR 0x0B], [CHR 0x0C], [CHR 0x0D], [CHR 0x20],
      [CHR 0xC2, CHR 0xA0],
      [CHR 0xE1, CHR 0x9A, CHR 0x80],
      [CHR 0xE2, CHR 0x80, CHR 0x80], [CHR 0xE2, CHR 0x80, CHR 0x81],
      [CHR 0xE2, CHR 0x80, CHR 0x82], [CHR 0xE2, CHR 0x80, CHR 0x83],
      [CHR 0xE2, CHR 0x80, CHR 0x84], [CHR 0xE2, CHR 0x80, CHR 0x85],
      [CHR 0xE2, CHR 0x80, CHR 0x86], [CHR 0xE2, CHR 0x80, CHR 0x87],
      [CHR 0xE2, CHR 0x80, CHR 0x88], [CHR 0xE2, CHR 0x80, CHR 0x89],
      [CHR 0xE2, CHR 0x80, CHR 0x8A],
      [CHR 0xE2, CHR 0x80, CHR 0xA8], [CHR 0xE2, CHR 0x80, CHR 0xA9],
      [CHR 0xE2, CHR 0x80, CHR 0xAF],
      [CHR 0xE2, CHR 0x81, CHR 0x9F],
      [CHR 0xE3, CHR 0x80, CHR 0x80],
      [CHR 0xEF, CHR 0xBB, CHR 0xBF]]"

text \<open>Dropping, from the front, every leading occurrence of one of the given sequences.\<close>

function stripLeading :: "string list \<Rightarrow> string \<Rightarrow> string" where
  "stripLeading ws s =
     (case find (\<lambda>w. w \<noteq> [] \<and> prefix w s) ws of
        None \<Rightarrow> s
      | Some w \<Rightarrow> stripLeading ws (drop (length w) s))"
  by pat_completeness auto
termination
proof (relation "measure (\<lambda>(ws, s). length s)")
  show "wf (measure (\<lambda>(ws, s). length s))" by simp
next
  fix ws :: "string list" and s w :: string
  assume "find (\<lambda>w. w \<noteq> [] \<and> prefix w s) ws = Some w"
  then have "w \<noteq> []" and "prefix w s"
    by (auto simp: find_Some_iff)
  then have "0 < length w" and "length w \<le> length s"
    by (simp_all add: prefix_length_le)
  then have "length s - length w < length s"
    by arith
  then show "((ws, drop (length w) s), (ws, s)) \<in> measure (\<lambda>(ws, s). length s)"
    by simp
qed

declare stripLeading.simps [simp del]

definition trim :: "string \<Rightarrow> string" where
  "trim s =
     rev (stripLeading (map rev JS_WHITE_SPACE) (rev (stripLeading JS_WHITE_SPACE s)))"

section \<open>Providers\<close>

datatype ProviderId = Gemini | Anthropic | Openai | Xai | Groq | Openrouter

section \<open>Token and cost estimator (lib/storage)\<close>

text \<open>
  JavaScript numbers are modelled as exact numbers: token counts computed by
  \<open>estimateTokens\<close> are integers, prices and costs are reals, and \<open>calculateCost\<close>
  computes exactly. \<open>calculateCost_rounded\<close> is the same expression in an arithmetic
  that rounds the exact result of every operation with a function \<open>rnd\<close>, as
  double-precision arithmetic does with a rounding that is monotone and keeps 0.
\<close>

definition estimateTokens :: "string \<Rightarrow> 'a list option \<Rightarrow> int" where
  "estimateTokens text attachments =
     (let tokens = \<lceil>real (length text) / 4\<rceil>
      in case attachments of
           None \<Rightarrow> tokens
         | Some atts \<Rightarrow>
             if length atts > 0 then tokens + int (length atts) * 1000 else tokens)"

definition calculateCost :: "real \<Rightarrow> real \<Rightarrow> real \<Rightarrow> real \<Rightarrow> real" where
  "calculateCost inputTokens outputTokens inputPricePerMillion outputPricePerMillion =
     (let inputCost = (inputTokens / 1000000) * inputPricePerMillion;
          outputCost = (outputTokens / 1000000) * outputPricePerMillion
      in inputCost + outputCost)"

definition calculateCost_rounded ::
  "(real \<Rightarrow> real) \<Rightarrow> real \<Rightarrow> real \<Rightarrow> real \<Rightarrow> real \<Rightarrow> real" where
  "calculateCost_rounded rnd inputTokens outputTokens inputPricePerMillion outputPricePerMillion =
     (let inputCost = rnd (rnd (inputTokens / 1000000) * inputPricePerMillion);
          outputCost = rnd (rnd (outputTokens / 1000000) * outputPricePerMillion)
      in rnd (inputCost + outputCost))"

section \<open>Pricing tables of the adapters\<close>

record Pricing =
  inputPrice :: real
  outputPrice :: real

text \<open>
  A pricing table is the list of the entries of the object literal, in the order
  \<open>Object.entries\<close> yields them: no key is an array index, so that is the order of
  declaration.
\<close>

type_synonym PricingTable = "(string \<times> Pricing) list"

definition XAI_PRICING :: PricingTable where
  "XAI_PRICING =
     [(''grok-2'', \<lparr>inputPrice = 2.00, outputPrice = 10.00\<rparr>),
      (''grok-2-mini'', \<lparr>inputPrice = 0.20, outputPrice = 1.00\<rparr>),
      (''grok-beta'', \<lparr>inputPrice = 5.00, outputPrice = 15.00\<rparr>)]"

definition OPENAI_PRICING :: PricingTable where
  "OPENAI_PRICING =
     [(''gpt-4o'', \<lparr>inputPrice = 2.50, outputPrice = 10.00\<rparr>),
      (''gpt-4o-mini'', \<lparr>inputPrice = 0.15, outputPrice = 0.60\<rparr>),
      (''gpt-4-turbo'', \<lparr>inputPrice = 10.00, outputPrice = 30.00\<rparr>),
      (''gpt-4'', \<lparr>inputPrice = 30.00, outputPrice = 60.00\<rparr>),
      (''gpt-3.5-turbo'', \<lparr>inputPrice = 0.50, outputPrice = 1.50\<rparr>),
      (''o1'', \<lparr>inputPrice = 15.00, outputPrice = 60.00\<rparr>),
      (''o1-mini'', \<lparr>inputPrice = 3.00, outputPrice = 12.00\<rparr>),
      (''o3-mini'', \<lparr>inputPrice = 1.10, outputPrice = 4.40\<rparr>)]"

definition GROQ_PRICING :: PricingTable where
  "GROQ_PRICING =
     [(''llama-3.3-70b'', \<lparr>inputPrice = 0.59, outputPrice = 0.79\<rparr>),
      (''llama-3.1-70b'', \<lparr>inputPrice = 0.59, outputPrice = 0.79\<rparr>),
      (''llama-3.1-8b'', \<lparr>inputPrice = 0.05, outputPrice = 0.08\<rparr>),
      (''mixtral-8x7b'', \<lparr>inputPrice = 0.24, outputPrice = 0.24\<rparr>),
      (''gemma2-9b'', \<lparr>inputPrice = 0.20, outputPrice = 0.20\<rparr>)]"

definition GEMINI_PRICING :: PricingTable where
  "GEMINI_PRICING =
     [(''gemini-2.5-pro'', \<lparr>inputPrice = 1.25, outputPrice = 10.00\<rparr>),
      (''gemini-2.5-flash'', \<lparr>inputPrice = 0.15, outputPrice = 0.60\<rparr>),
      (''gemini-2.0-flash'', \<lparr>inputPrice = 0.10, outputPrice = 0.40\<rparr>),
      (''gemini-1.5-pro'', \<lparr>inputPrice = 1.25, outputPrice = 5.00\<rparr>),
      (''gemini-1.5-flash'', \<lparr>inputPrice = 0.075, outputPrice = 0.30\<rparr>),
      (''gemini-1.0-pro'', \<lparr>inputPrice = 0.50, outputPrice = 1.50\<rparr>)]"

definition ANTHROPIC_PRICING :: PricingTable where
  "ANTHROPIC_PRICING =
     [(''claude-3-5-sonnet'', \<lparr>inputPrice = 3.00, outputPrice = 15.00\<rparr>),
      (''claude-3-5-haiku'', \<lparr>inputPrice = 1.00, outputPrice = 5.00\<rparr>),
      (''claude-3-opus'', \<lparr>inputPrice = 15.00, outputPrice = 75.00\<rparr>),
      (''claude-3-sonnet'', \<lparr>inputPrice = 3.00, outputPrice = 15.00\<rparr>),
      (''claude-3-haiku'', \<lparr>inputPrice = 0.25, outputPrice = 1.25\<rparr>)]"

text \<open>
  The five \<open>getModelPricing\<close> functions share one loop,
  \<open>for (const [key, pricing] of Object.entries(TABLE)) if (id.includes(f(key))) return pricing;\<close>
  followed by \<open>return DEFAULT\<close>. \<open>pricingLoop\<close> is that loop: \<open>needle\<close> is what the
  adapter makes of a key before the test, \<open>hay\<close> the lower-cased model id.
\<close>

fun pricingLoop :: "(string \<Rightarrow> string) \<Rightarrow> string \<Rightarrow> PricingTable \<Rightarrow> Pricing \<Rightarrow> Pricing" where
  "pricingLoop needle hay [] dflt = dflt"
| "pricingLoop needle hay ((key, pricing) # rest) dflt =
     (if str_includes hay (needle key) then pricing
      else pricingLoop needle hay rest dflt)"

definition getModelPricing_xai :: "string \<Rightarrow> Pricing" where
  "getModelPricing_xai modelId =
     pricingLoop (\<lambda>key. toLowerCase key) (toLowerCase modelId) XAI_PRICING
       \<lparr>inputPrice = 2.00, outputPrice = 10.00\<rparr>"

definition getModelPricing_openai :: "string \<Rightarrow> Pricing" where
  "getModelPricing_openai modelId =
     pricingLoop (\<lambda>key. toLowerCase key) (toLowerCase modelId) OPENAI_PRICING
       \<lparr>inputPrice = 2.50, outputPrice = 10.00\<rparr>"

definition getModelPricing_groq :: "string \<Rightarrow> Pricing" where
  "getModelPricing_groq modelId =
     pricingLoop (\<lambda>key. toLowerCase key) (toLowerCase modelId) GROQ_PRICING
       \<lparr>inputPrice = 0.10, outputPrice = 0.10\<rparr>"

definition getModelPricing_gemini :: "string \<Rightarrow> Pricing" where
  "getModelPricing_gemini modelId =
     pricingLoop (\<lambda>key. str_replace ''gemini-'' '''' (toLowerCase key)) (toLowerCase modelId)
       GEMINI_PRICING \<lparr>inputPrice = 0.15, outputPrice = 0.60\<rparr>"

definition getModelPricing_anthropic :: "string \<Rightarrow> Pricing" where
  "getModelPricing_anthropic modelId =
     pricingLoop (\<lambda>key. str_replace ''claude-'' '''' key) (toLowerCase modelId)
       ANTHROPIC_PRICING \<lparr>inputPrice = 3.00, outputPrice = 15.00\<rparr>"

text \<open>
  \<open>estimateCost\<close> of the adapter registered for a provider. OpenRouter's adapter has no
  table: it logs the model id and prices every model at 1.0 / 2.0.
\<close>

fun estimateCost :: "ProviderId \<Rightarrow> real \<Rightarrow> real \<Rightarrow> string \<Rightarrow> real" where
  "estimateCost Xai inputTokens outputTokens modelId =
     (let pricing = getModelPricing_xai modelId
      in calculateCost inputTokens outputTokens (inputPrice pricing) (outputPrice pricing))"
| "estimateCost Openai inputTokens outputTokens modelId =
     (let pricing = getModelPricing_openai modelId
      in calculateCost inputTokens outputTokens (inputPrice pricing) (outputPrice pricing))"
| "estimateCost Groq inputTokens outputTokens modelId =
     (let pricing = getModelPricing_groq modelId
      in calculateCost inputTokens outputTokens (inputPrice pricing) (outputPrice pricing))"
| "estimateCost Gemini inputTokens outputTokens modelId =
     (let pricing = getModelPricing_gemini modelId
      in calculateCost inputTokens outputTokens (inputPrice pricing) (outputPrice pricing))"
| "estimateCost Anthropic inputTokens outputTokens modelId =
     (let pricing = getModelPricing_anthropic modelId
      in calculateCost inputTokens outputTokens (inputPrice pricing) (outputPrice pricing))"
| "estimateCost Openrouter inputTokens outputTokens modelId =
     calculateCost inputTokens outputTokens 1.0 2.0"

fun estimateCost_rounded ::
  "(real \<Rightarrow> real) \<Rightarrow> ProviderId \<Rightarrow> real \<Rightarrow> real \<Rightarrow> string \<Rightarrow> real" where
  "estimateCost_rounded rnd Xai inputTokens outputTokens modelId =
     (let pricing = getModelPricing_xai modelId
      in calculateCost_rounded rnd inputTokens outputTokens (inputPrice pricing)
           (outputPrice pricing))"
| "estimateCost_rounded rnd Openai inputTokens outputTokens modelId =
     (let pricing = getModelPricing_openai modelId
      in calculateCost_rounded rnd inputTokens outputTokens (inputPrice pricing)
           (outputPrice pricing))"
| "estimateCost_rounded rnd Groq inputTokens outputTokens modelId =
     (let pricing = getModelPricing_groq modelId
      in calculateCost_rounded rnd inputTokens outputTokens (inputPrice pricing)
           (outputPrice pricing))"
| "estimateCost_rounded rnd Gemini inputTokens outputTokens modelId =
     (let pricing = getModelPricing_gemini modelId
      in calculateCost_rounded rnd inputTokens outputTokens (inputPrice pricing)
           (outputPrice pricing))"
| "estimateCost_rounded rnd Anthropic inputTokens outputTokens modelId =
     (let pricing = getModelPricing_anthropic modelId
      in calculateCost_rounded rnd inputTokens outputTokens (inputPrice pricing)
           (outputPrice pricing))"
| "estimateCost_rounded rnd Openrouter inputTokens outputTokens modelId =
     calculateCost_rounded rnd inputTokens outputTokens 1.0 2.0"

subsection \<open>The lookup as the specification words it\<close>

text \<open>
  The specification's wording of the lookup, to be compared with the code: the tier of
  the first table entry whose key is contained in the model id, the default tier
  when there is none.
\<close>

definition tierByContainment :: "PricingTable \<Rightarrow> Pricing \<Rightarrow> string \<Rightarrow> Pricing" where
  "tierByContainment table dflt modelId =
     (case find (\<lambda>(key, pricing). sublist key modelId) table of
        Some (key, pricing) \<Rightarrow> pricing
      | None \<Rightarrow> dflt)"

text \<open>
  What the adapters do instead, per vendor: the table, the default tier, and the text
  looked for in the lower-cased model id (the key lower-cased; for Gemini with its first
  \<open>gemini-\<close> removed, for Anthropic the key as written with its first \<open>claude-\<close>
  removed). OpenRouter has an empty table and the fixed tier.
\<close>

fun tableOf :: "ProviderId \<Rightarrow> PricingTable" where
  "tableOf Xai = XAI_PRICING"
| "tableOf Openai = OPENAI_PRICING"
| "tableOf Groq = GROQ_PRICING"
| "tableOf Gemini = GEMINI_PRICING"
| "tableOf Anthropic = ANTHROPIC_PRICING"
| "tableOf Openrouter = []"

fun defaultTier :: "ProviderId \<Rightarrow> Pricing" where
  "defaultTier Xai = \<lparr>inputPrice = 2.00, outputPrice = 10.00\<rparr>"
| "defaultTier Openai = \<lparr>inputPrice = 2.50, outputPrice = 10.00\<rparr>"
| "defaultTier Groq = \<lparr>inputPrice = 0.10, outputPrice = 0.10\<rparr>"
| "defaultTier Gemini = \<lparr>inputPrice = 0.15, outputPrice = 0.60\<rparr>"
| "defaultTier Anthropic = \<lparr>inputPrice = 3.00, outputPrice = 15.00\<rparr>"
| "defaultTier Openrouter = \<lparr>inputPrice = 1.0, outputPrice = 2.0\<rparr>"

fun matchKey :: "ProviderId \<Rightarrow> string \<Rightarrow> string" where
  "matchKey Gemini key = str_replace ''gemini-'' '''' (toLowerCase key)"
| "matchKey Anthropic key = str_replace ''claude-'' '''' key"
| "matchKey p key = toLowerCase key"

definition tierByMatchKey :: "ProviderId \<Rightarrow> string \<Rightarrow> Pricing" where
  "tierByMatchKey p modelId =
     (case find (\<lambda>(key, pricing). sublist (matchKey p key) (toLowerCase modelId)) (tableOf p) of
        Some (key, pricing) \<Rightarrow> pricing
      | None \<Rightarrow> defaultTier p)"

section \<open>Data model (types)\<close>

datatype Role = User | Assistant | System

record Attachment =
  att_id :: string
  att_type :: string
  att_name :: string
  mimeType :: string
  att_size :: int
  att_data :: string

text \<open>An optional field of the TypeScript interface is an \<open>option\<close>: \<open>None\<close> is \<open>undefined\<close>.\<close>

record Message =
  msg_id :: string
  role :: Role
  content :: string
  timestamp :: int
  tokenCount :: "int option"
  timing :: "real option"
  model :: "string option"
  attachments :: "Attachment list option"

record Conversation =
  conv_id :: string
  title :: string
  messages :: "Message list"
  providerId :: ProviderId
  modelId :: string
  createdAt :: int
  updatedAt :: int
  totalCost :: "real option"
  disableSystemPrompt :: "bool option"
  pinned :: "bool option"
  groupId :: "string option"

record ChatConfig =
  cfg_model :: string
  temperature :: "real option"
  maxTokens :: "int option"
  systemPrompt :: "string option"

text \<open>Truthiness of an optional boolean and of an optional string.\<close>

definition truthyFlag :: "bool option \<Rightarrow> bool" where
  "truthyFlag b = (b = Some True)"


section \<open>Conversation store (lib/storage)\<close>

text \<open>
  The item \<open>ai-chat-conversations\<close> of \<open>localStorage\<close>: \<open>None\<close> while nothing was
  stored, else the list that was serialised. \<open>JSON.parse\<close> after \<open>JSON.stringify\<close> is
  taken to give the stored list back.
\<close>

type_synonym Storage = "Conversation list option"

definition getConversations :: "Storage \<Rightarrow> Conversation list" where
  "getConversations stored = (case stored of None \<Rightarrow> [] | Some cs \<Rightarrow> cs)"

definition getConversation :: "Storage \<Rightarrow> string \<Rightarrow> Conversation option" where
  "getConversation stored ident = find (\<lambda>c. conv_id c = ident) (getConversations stored)"

text \<open>\<open>Array.prototype.findIndex\<close>: the first index whose element passes, \<open>-1\<close> if none.\<close>

fun findIndex :: "('a \<Rightarrow> bool) \<Rightarrow> 'a list \<Rightarrow> int" where
  "findIndex P [] = -1"
| "findIndex P (x # xs) =
     (if P x then 0 else (let r = findIndex P xs in if r < 0 then -1 else r + 1))"

definition saveConversation :: "Conversation \<Rightarrow> Storage \<Rightarrow> Storage" where
  "saveConversation conversation stored =
     (let conversations = getConversations stored;
          index = findIndex (\<lambda>c. conv_id c = conv_id conversation) conversations
      in if index \<ge> 0 then Some (conversations[nat index := conversation])
         else Some (conversation # conversations))"


definition generateConversationTitle :: "string \<Rightarrow> string" where
  "generateConversationTitle firstMessage =
     (let title = trim (take 50 firstMessage)
      in if length title < length firstMessage then title @ ''...'' else title)"

section \<open>Streaming adapters (lib/providers)\<close>

text \<open>
  A thrown value: whether it is an \<open>Error\<close> instance, its \<open>name\<close> and its \<open>message\<close>.
  The abort of a fetch is an instance named \<open>AbortError\<close>.
\<close>

record JsError =
  instanceofError :: bool
  err_name :: string
  message :: string

definition newError :: "string \<Rightarrow> JsError" where
  "newError msg = \<lparr>instanceofError = True, err_name = ''Error'', message = msg\<rparr>"

datatype Callback = OnToken string | OnComplete string | OnError JsError

text \<open>
  What the network gives one \<open>streamChat\<close> run. \<open>fetch\<close> rejects or resolves with a
  response; the response has its \<open>ok\<close> flag, the outcome of \<open>response.text()\<close> and,
  unless the body is missing, a reader. A reader delivers finitely many decoded chunks
  and then either reports \<open>done\<close> or rejects a \<open>read()\<close>.
\<close>

datatype ReadEnd = StreamDone | ReadThrows JsError

record Body =
  chunks :: "string list"
  ending :: ReadEnd

record Response =
  ok :: bool
  responseText :: "JsError + string"
  body :: "Body option"

datatype FetchOutcome = FetchRejects JsError | FetchResolves Response

text \<open>How the promise of an asynchronous function settles.\<close>

datatype Settled = Resolved | Rejected JsError

text \<open>\<open>chunk.split('\n')\<close>.\<close>

fun splitOn :: "char \<Rightarrow> string \<Rightarrow> string list" where
  "splitOn d [] = [[]]"
| "splitOn d (c # s) =
     (if c = d then [] # splitOn d s
      else (case splitOn d s of [] \<Rightarrow> [[c]] | l # ls \<Rightarrow> (c # l) # ls))"

text \<open>
  The body of the loop over the lines of a chunk. \<open>payload\<close> stands for the inner
  \<open>try\<close> up to the test of \<open>text\<close>: \<open>JSON.parse\<close>, then the vendor's path
  (\<open>choices[0].delta.content\<close> for the OpenAI-compatible adapters,
  \<open>candidates[0].content.parts[0].text\<close> for Gemini, \<open>delta.text\<close> of a
  \<open>content_block_delta\<close> event for Anthropic). It is \<open>None\<close> where that throws or
  the value at the path is absent or falsy; a text is the string found there (a truthy
  value of another type stands as the string \<open>+=\<close> makes of it). The empty string is
  falsy, which the test below writes out. The pair is the new \<open>fullResponse\<close> and the
  callbacks made.
\<close>

definition processLine ::
  "(string \<Rightarrow> string option) \<Rightarrow> string \<Rightarrow> string \<Rightarrow> string \<times> Callback list" where
  "processLine payload fullResponse line =
     (if prefix ''data: '' line then
        (let jsonStr = drop 6 line
         in if trim jsonStr = ''[DONE]'' then (fullResponse, [])
            else (case payload jsonStr of
                    None \<Rightarrow> (fullResponse, [])
                  | Some text \<Rightarrow>
                      if text \<noteq> [] then (fullResponse @ text, [OnToken text])
                      else (fullResponse, [])))
      else (fullResponse, []))"

fun processLines ::
  "(string \<Rightarrow> string option) \<Rightarrow> string \<Rightarrow> string list \<Rightarrow> string \<times> Callback list" where
  "processLines payload fullResponse [] = (fullResponse, [])"
| "processLines payload fullResponse (line # rest) =
     (let (full1, cbs1) = processLine payload fullResponse line;
          (full2, cbs2) = processLines payload full1 rest
      in (full2, cbs1 @ cbs2))"

text \<open>The \<open>while (true)\<close> loop, one round per chunk the reader delivers.\<close>

fun readLoop ::
  "(string \<Rightarrow> string option) \<Rightarrow> string \<Rightarrow> string list \<Rightarrow> string \<times> Callback list" where
  "readLoop payload fullResponse [] = (fullResponse, [])"
| "readLoop payload fullResponse (chunk # rest) =
     (let lines = splitOn CHR 0x0A chunk;
          (full1, cbs1) = processLines payload fullResponse lines;
          (full2, cbs2) = readLoop payload full1 rest
      in (full2, cbs1 @ cbs2))"

text \<open>The \<open>try\<close> / \<open>catch\<close> around the loop: the callbacks made, in order.\<close>

definition readBody :: "(string \<Rightarrow> string option) \<Rightarrow> Body \<Rightarrow> Callback list" where
  "readBody payload b =
     (let (fullResponse, cbs) = readLoop payload [] (chunks b)
      in case ending b of
           StreamDone \<Rightarrow> cbs @ [OnComplete fullResponse]
         | ReadThrows err \<Rightarrow>
             if instanceofError err \<and> err_name err = ''AbortError''
             then cbs @ [OnComplete fullResponse]
             else cbs @ [OnError err])"

fun apiErrorPrefix :: "ProviderId \<Rightarrow> string" where
  "apiErrorPrefix Xai = ''xAI API error: ''"
| "apiErrorPrefix Openai = ''OpenAI API error: ''"
| "apiErrorPrefix Groq = ''Groq API error: ''"
| "apiErrorPrefix Openrouter = ''OpenRouter API error: ''"
| "apiErrorPrefix Gemini = ''Gemini API error: ''"
| "apiErrorPrefix Anthropic = ''Anthropic API error: ''"

text \<open>
  \<open>streamChat\<close> of the adapter of a provider, from the answer to its request on: the
  callbacks it makes and how its promise settles. The six adapters differ in the request
  they build (which calls no callback and throws nothing), in the prefix of the error
  message and in \<open>payload\<close>. The callbacks are taken to return normally, as those the page
  passes do.
\<close>

definition streamChat ::
  "ProviderId \<Rightarrow> (string \<Rightarrow> string option) \<Rightarrow> FetchOutcome \<Rightarrow> Callback list \<times> Settled" where
  "streamChat p payload net =
     (case net of
        FetchRejects err \<Rightarrow> ([], Rejected err)
      | FetchResolves response \<Rightarrow>
          if \<not> ok response then
            (case responseText response of
               Inl err \<Rightarrow> ([], Rejected err)
             | Inr errText \<Rightarrow> ([], Rejected (newError (apiErrorPrefix p @ errText))))
          else
            (case body response of
               None \<Rightarrow> ([], Rejected (newError ''No response body''))
             | Some reader \<Rightarrow> (readBody payload reader, Resolved)))"

text \<open>The terminal callbacks of a run, and the token texts it delivered.\<close>

fun isTerminal :: "Callback \<Rightarrow> bool" where
  "isTerminal (OnToken t) = False"
| "isTerminal (OnComplete r) = True"
| "isTerminal (OnError e) = True"

fun tokensOf :: "Callback list \<Rightarrow> string list" where
  "tokensOf [] = []"
| "tokensOf (OnToken t # cbs) = t # tokensOf cbs"
| "tokensOf (cb # cbs) = tokensOf cbs"

fun isOnError :: "Callback \<Rightarrow> bool" where
  "isOnError (OnError e) = True"
| "isOnError cb = False"

text \<open>The terminal callback the \<open>try\<close> / \<open>catch\<close> ends with, given how reading ended and
  the tokens delivered.\<close>

definition closing :: "ReadEnd \<Rightarrow> string list \<Rightarrow> Callback" where
  "closing e ts =
     (case e of
        StreamDone \<Rightarrow> OnComplete (concat ts)
      | ReadThrows err \<Rightarrow>
          if instanceofError err \<and> err_name err = ''AbortError''
          then OnComplete (concat ts) else OnError err)"

section \<open>Send / Retry orchestrator (app/page)\<close>

text \<open>
  The state of the page: its React state, the flag whether \<open>abortControllerRef\<close> holds
  a controller, and the two items of \<open>localStorage\<close> the handlers read and write (the
  stored conversations and the system prompt of the preferences). A state setter takes
  effect at once; an updater \<open>setConversation(prev => ...)\<close> is applied to the state
  it finds.
\<close>

record PageState =
  conversation :: "Conversation option"
  isLoading :: bool
  streamingMessageId :: "string option"
  error :: "string option"
  systemPromptWarningOpen :: bool
  selectedProvider :: ProviderId
  selectedModel :: string
  sessionCost :: real
  apiKeys :: "ProviderId \<Rightarrow> string option"
  abortController :: bool
  stored :: Storage
  prefSystemPrompt :: "string option"

text \<open>
  What \<open>uuidv4()\<close> and \<open>Date.now()\<close> return at the call sites of one handler run, in
  the order of the source: the id and the two times of \<open>createNewConversation\<close>, the id
  and time of the user message, the id and time of the placeholder, \<open>updatedAt\<close>, the
  time of the system message, \<open>startTime\<close>.
\<close>

record Env =
  uuidConversation :: string
  nowCreated :: int
  nowCreatedUpdated :: int
  uuidUser :: string
  nowUser :: int
  uuidAssistant :: string
  nowAssistant :: int
  nowUpdated :: int
  nowSystem :: int
  nowStart :: int

definition createNewConversation :: "Env \<Rightarrow> ProviderId \<Rightarrow> string \<Rightarrow> Conversation" where
  "createNewConversation env pid mid =
     \<lparr>conv_id = uuidConversation env, title = ''New Chat'', messages = [],
      providerId = pid, modelId = mid,
      createdAt = nowCreated env, updatedAt = nowCreatedUpdated env,
      totalCost = Some 0, disableSystemPrompt = None, pinned = None, groupId = None\<rparr>"

text \<open>
  A call of \<open>adapter.streamChat\<close>: its arguments and what the callbacks passed to it
  have captured (the id of the message they fill, \<open>startTime\<close>, and which handler made
  them). The model name the callbacks capture is \<open>config.model\<close>.
\<close>

datatype Flow = SendFlow | RetryFlow | ContinueFlow

record StreamCall =
  adapter :: ProviderId
  apiMessages :: "Message list"
  config :: ChatConfig
  apiKey :: string
  targetId :: string
  startTime :: int
  flow :: Flow

text \<open>
  How a handler ends before any answer arrives: it has called \<open>streamChat\<close>, it has
  returned or caught its own error without calling it, or it has thrown outside its
  \<open>try\<close>.
\<close>

datatype Launch = Launched StreamCall | NotLaunched | Uncaught JsError

definition CONFIG_ERROR :: string where
  "CONFIG_ERROR = ''Please configure an API key and select a model''"

definition SEND_FALLBACK_PROMPT :: string where
  "SEND_FALLBACK_PROMPT =
     ''You are a friendly and helpful AI assistant. Always try your best to assist the user. '' @
     ''If you don'' @ [CHR 0x27] @ ''t know the answer, just say so. Don'' @ [CHR 0x27] @
     ''t make things up. Don'' @ [CHR 0x27] @ ''t make promises you can'' @ [CHR 0x27] @
     ''t keep. Don'' @ [CHR 0x27] @ ''t make up dates or times.''"

definition RETRY_FALLBACK_PROMPT :: string where
  "RETRY_FALLBACK_PROMPT =
     ''You are a friendly and helpful AI assistant. Always try your best to assist the user.''"

definition chooseSystemPrompt :: "string option \<Rightarrow> string \<Rightarrow> string" where
  "chooseSystemPrompt userSystemPrompt fallback =
     (case userSystemPrompt of
        None \<Rightarrow> fallback
      | Some p \<Rightarrow> if p \<noteq> [] \<and> length (trim p) > 0 then p else fallback)"

definition systemMessage :: "string \<Rightarrow> int \<Rightarrow> Message" where
  "systemMessage prompt now =
     \<lparr>msg_id = ''system'', role = System, content = prompt, timestamp = now,
      tokenCount = None, timing = None, model = None, attachments = None\<rparr>"

definition placeholder :: "Env \<Rightarrow> Message" where
  "placeholder env =
     \<lparr>msg_id = uuidAssistant env, role = Assistant, content = [], timestamp = nowAssistant env,
      tokenCount = None, timing = None, model = None, attachments = None\<rparr>"

definition baseConfig :: "string \<Rightarrow> string option \<Rightarrow> ChatConfig" where
  "baseConfig modelName prompt =
     \<lparr>cfg_model = modelName, temperature = Some 0.7, maxTokens = Some 4096,
      systemPrompt = prompt\<rparr>"

definition handleSend ::
  "Env \<Rightarrow> string \<Rightarrow> Attachment list option \<Rightarrow> PageState \<Rightarrow> PageState \<times> Launch" where
  "handleSend env text atts s =
     (case apiKeys s (selectedProvider s) of
        None \<Rightarrow> (s\<lparr>error := Some CONFIG_ERROR\<rparr>, NotLaunched)
      | Some key \<Rightarrow>
      if key = [] \<or> selectedModel s = [] then
        (s\<lparr>error := Some CONFIG_ERROR\<rparr>, NotLaunched)
      else
        (let currentConv =
               (case conversation s of
                  None \<Rightarrow> createNewConversation env (selectedProvider s) (selectedModel s)
                | Some c \<Rightarrow> c);
             userMessage =
               \<lparr>msg_id = uuidUser env, role = User, content = text, timestamp = nowUser env,
                tokenCount = Some (estimateTokens text atts), timing = None, model = None,
                attachments = atts\<rparr>;
             assistantMessage = placeholder env;
             updatedMessages = messages currentConv @ [userMessage, assistantMessage];
             newTitle =
               (if length (messages currentConv) = 0 then generateConversationTitle text
                else title currentConv);
             updatedConv =
               currentConv\<lparr>messages := updatedMessages, title := newTitle,
                 updatedAt := nowUpdated env, modelId := selectedModel s,
                 providerId := selectedProvider s\<rparr>;
             s1 = s\<lparr>error := None, isLoading := True, conversation := Some updatedConv,
                   stored := saveConversation updatedConv (stored s),
                   streamingMessageId := Some (msg_id assistantMessage),
                   abortController := True\<rparr>;
             apiMessages0 = butlast updatedMessages;
             prompt = chooseSystemPrompt (prefSystemPrompt s) SEND_FALLBACK_PROMPT;
             outbound =
               (if \<not> truthyFlag (disableSystemPrompt currentConv)
                then systemMessage prompt (nowSystem env) # apiMessages0
                else apiMessages0)
         in (s1,
             Launched
               \<lparr>adapter = selectedProvider s, apiMessages = outbound,
                config = baseConfig (selectedModel s) (prefSystemPrompt s),
                apiKey = key,
                targetId = msg_id assistantMessage, startTime = nowStart env,
                flow = SendFlow\<rparr>)))"

definition handleRetry :: "Env \<Rightarrow> string \<Rightarrow> PageState \<Rightarrow> PageState \<times> Launch" where
  "handleRetry env messageId s =
     (case conversation s of
        None \<Rightarrow> (s, NotLaunched)
      | Some conv \<Rightarrow>
          (let index = findIndex (\<lambda>m. msg_id m = messageId) (messages conv)
           in if index = -1 then (s, NotLaunched)
              else case apiKeys s (selectedProvider s) of
                None \<Rightarrow> (s\<lparr>error := Some CONFIG_ERROR\<rparr>, NotLaunched)
              | Some key \<Rightarrow>
              if key = [] \<or> selectedModel s = [] then
                (s\<lparr>error := Some CONFIG_ERROR\<rparr>, NotLaunched)
              else
                (let apiMessagesFull = take (nat (index + 1)) (messages conv);
                     assistantMessage = placeholder env;
                     updatedConv =
                       conv\<lparr>messages := apiMessagesFull @ [assistantMessage],
                         updatedAt := nowUpdated env\<rparr>;
                     s1 = s\<lparr>error := None, isLoading := True,
                           conversation := Some updatedConv,
                           stored := saveConversation updatedConv (stored s),
                           streamingMessageId := Some (msg_id assistantMessage),
                           abortController := True\<rparr>;
                     prompt = chooseSystemPrompt (prefSystemPrompt s) RETRY_FALLBACK_PROMPT;
                     outbound =
                       (if \<not> truthyFlag (disableSystemPrompt updatedConv)
                        then systemMessage prompt (nowSystem env) # apiMessagesFull
                        else apiMessagesFull)
                 in (s1,
                     Launched
                       \<lparr>adapter = selectedProvider s, apiMessages = outbound,
                        config = baseConfig (selectedModel s) (prefSystemPrompt s),
                        apiKey = key,
                        targetId = msg_id assistantMessage, startTime = nowStart env,
                        flow = RetryFlow\<rparr>))))"


subsection \<open>The callbacks a handler passes to the adapter\<close>







text \<open>The \<open>catch\<close> of a handler, reached when \<open>streamChat\<close> rejects.\<close>

definition catchRejected :: "Flow \<Rightarrow> JsError \<Rightarrow> PageState \<Rightarrow> PageState" where
  "catchRejected fl err s =
     (let s1 =
            (if instanceofError err \<and> err_name err \<noteq> ''AbortError'' then
               (if fl = SendFlow \<and> str_includes (message err) ''Developer instruction is not enabled''
                then s\<lparr>systemPromptWarningOpen := True\<rparr>
                else s\<lparr>error := Some (message err)\<rparr>)
             else s)
      in s1\<lparr>isLoading := False, streamingMessageId := None\<rparr>)"

subsection \<open>The other handlers that touch a conversation\<close>






subsection \<open>Events of the page\<close>





section \<open>Sample values for the instances\<close>

text \<open>The page as \<open>useState\<close> initialises it, with nothing stored.\<close>

definition initialPage :: PageState where
  "initialPage =
     \<lparr>conversation = None, isLoading = False, streamingMessageId = None, error = None,
      systemPromptWarningOpen = False, selectedProvider = Openai, selectedModel = [],
      sessionCost = 0, apiKeys = Map.empty, abortController = False, stored = None,
      prefSystemPrompt = None\<rparr>"

definition sampleEnv :: "string \<Rightarrow> Env" where
  "sampleEnv tag =
     \<lparr>uuidConversation = ''conv-'' @ tag, nowCreated = 1000, nowCreatedUpdated = 1000,
      uuidUser = ''user-'' @ tag, nowUser = 1001,
      uuidAssistant = ''asst-'' @ tag, nowAssistant = 1002,
      nowUpdated = 1003, nowSystem = 1004, nowStart = 1005\<rparr>"

definition sampleMessage :: "string \<Rightarrow> Role \<Rightarrow> string \<Rightarrow> Message" where
  "sampleMessage ident r text =
     \<lparr>msg_id = ident, role = r, content = text, timestamp = 900,
      tokenCount = None, timing = None, model = None, attachments = None\<rparr>"

definition sampleConversation :: "string \<Rightarrow> Message list \<Rightarrow> Conversation" where
  "sampleConversation tag ms =
     (createNewConversation (sampleEnv tag) Openai ''gpt-4o'')\<lparr>messages := ms\<rparr>"

text \<open>
  Two lines of an OpenAI-compatible stream and what \<open>JSON.parse\<close> with the path
  \<open>choices[0].delta.content\<close> gives for them.
\<close>

definition sampleChunk :: string where
  "sampleChunk =
     ''data: {\"choices\":[{\"delta\":{\"content\":\"Hel\"}}]}'' @ [CHR 0x0A] @
     ''data: {\"choices\":[{\"delta\":{\"content\":\"lo\"}}]}'' @ [CHR 0x0A]"

definition samplePayload :: "string \<Rightarrow> string option" where
  "samplePayload =
     map_of [(''{\"choices\":[{\"delta\":{\"content\":\"Hel\"}}]}'', ''Hel''),
             (''{\"choices\":[{\"delta\":{\"content\":\"lo\"}}]}'', ''lo'')]"

text \<open>A rounding for the instances: to the nearest millionth.\<close>

definition roundMicro :: "real \<Rightarrow> real" where
  "roundMicro x = real_of_int \<lfloor>x * 1000000 + 1 / 2\<rfloor> / 1000000"

definition abortError :: JsError where
  "abortError =
     \<lparr>instanceofError = True, err_name = ''AbortError'',
      message = ''The user aborted a request.''\<rparr>"


text \<open>
  A page showing the conversation \<open>conv-a\<close> with the given messages, OpenAI selected
  with a stored key and the model \<open>gpt-4o\<close>; and the same page without any key.
\<close>

definition samplePage :: "Message list \<Rightarrow> PageState" where
  "samplePage ms =
     initialPage\<lparr>conversation := Some (sampleConversation ''a'' ms),
       selectedModel := ''gpt-4o'', apiKeys := Map.empty(Openai \<mapsto> ''sk-test'')\<rparr>"

definition samplePageNoKey :: "Message list \<Rightarrow> PageState" where
  "samplePageNoKey ms =
     initialPage\<lparr>conversation := Some (sampleConversation ''a'' ms), selectedModel := ''gpt-4o''\<rparr>"



section \<open>Properties of the estimator and of the pricing lookup\<close>

lemma str_includes_sublist: "str_includes s k = sublist k s"
  by (induction s) (auto simp: sublist_Cons_right)

lemma pricingLoop_find:
  "pricingLoop needle hay table dflt =
     (case find (\<lambda>(key, pricing). sublist (needle key) hay) table of
        Some (key, pricing) \<Rightarrow> pricing
      | None \<Rightarrow> dflt)"
  by (induction table) (auto simp: str_includes_sublist)

lemma pricingLoop_cases:
  "pricingLoop needle hay table dflt = dflt \<or>
   pricingLoop needle hay table dflt \<in> snd ` set table"
  by (induction table) force+

lemma XAI_PRICING_nonneg:
  "p \<in> snd ` set XAI_PRICING \<Longrightarrow> 0 \<le> inputPrice p \<and> 0 \<le> outputPrice p"
  by (auto simp: XAI_PRICING_def)

lemma OPENAI_PRICING_nonneg:
  "p \<in> snd ` set OPENAI_PRICING \<Longrightarrow> 0 \<le> inputPrice p \<and> 0 \<le> outputPrice p"
  by (auto simp: OPENAI_PRICING_def)

lemma GROQ_PRICING_nonneg:
  "p \<in> snd ` set GROQ_PRICING \<Longrightarrow> 0 \<le> inputPrice p \<and> 0 \<le> outputPrice p"
  by (auto simp: GROQ_PRICING_def)

lemma GEMINI_PRICING_nonneg:
  "p \<in> snd ` set GEMINI_PRICING \<Longrightarrow> 0 \<le> inputPrice p \<and> 0 \<le> outputPrice p"
  by (auto simp: GEMINI_PRICING_def)

lemma ANTHROPIC_PRICING_nonneg:
  "p \<in> snd ` set ANTHROPIC_PRICING \<Longrightarrow> 0 \<le> inputPrice p \<and> 0 \<le> outputPrice p"
  by (auto simp: ANTHROPIC_PRICING_def)

lemma getModelPricing_xai_nonneg:
  "0 \<le> inputPrice (getModelPricing_xai m) \<and> 0 \<le> outputPrice (getModelPricing_xai m)"
  unfolding getModelPricing_xai_def
  using pricingLoop_cases [of "\<lambda>key. toLowerCase key" "toLowerCase m" XAI_PRICING
      "\<lparr>inputPrice = 2.00, outputPrice = 10.00\<rparr>"] XAI_PRICING_nonneg
  by auto

lemma getModelPricing_openai_nonneg:
  "0 \<le> inputPrice (getModelPricing_openai m) \<and> 0 \<le> outputPrice (getModelPricing_openai m)"
  unfolding getModelPricing_openai_def
  using pricingLoop_cases [of "\<lambda>key. toLowerCase key" "toLowerCase m" OPENAI_PRICING
      "\<lparr>inputPrice = 2.50, outputPrice = 10.00\<rparr>"] OPENAI_PRICING_nonneg
  by auto

lemma getModelPricing_groq_nonneg:
  "0 \<le> inputPrice (getModelPricing_groq m) \<and> 0 \<le> outputPrice (getModelPricing_groq m)"
  unfolding getModelPricing_groq_def
  using pricingLoop_cases [of "\<lambda>key. toLowerCase key" "toLowerCase m" GROQ_PRICING
      "\<lparr>inputPrice = 0.10, outputPrice = 0.10\<rparr>"] GROQ_PRICING_nonneg
  by auto

lemma getModelPricing_gemini_nonneg:
  "0 \<le> inputPrice (getModelPricing_gemini m) \<and> 0 \<le> outputPrice (getModelPricing_gemini m)"
  unfolding getModelPricing_gemini_def
  using pricingLoop_cases [of "\<lambda>key. str_replace ''gemini-'' '''' (toLowerCase key)"
      "toLowerCase m" GEMINI_PRICING "\<lparr>inputPrice = 0.15, outputPrice = 0.60\<rparr>"] GEMINI_PRICING_nonneg
  by auto

lemma getModelPricing_anthropic_nonneg:
  "0 \<le> inputPrice (getModelPricing_anthropic m) \<and> 0 \<le> outputPrice (getModelPricing_anthropic m)"
  unfolding getModelPricing_anthropic_def
  using pricingLoop_cases [of "\<lambda>key. str_replace ''claude-'' '''' key"
      "toLowerCase m" ANTHROPIC_PRICING "\<lparr>inputPrice = 3.00, outputPrice = 15.00\<rparr>"]
    ANTHROPIC_PRICING_nonneg
  by auto

lemma calculateCost_nonneg:
  "0 \<le> i \<Longrightarrow> 0 \<le> out \<Longrightarrow> 0 \<le> pin \<Longrightarrow> 0 \<le> pout \<Longrightarrow> 0 \<le> calculateCost i out pin pout"
  by (simp add: calculateCost_def)

lemma calculateCost_mono:
  "i1 \<le> i2 \<Longrightarrow> o1 \<le> o2 \<Longrightarrow> 0 \<le> pin \<Longrightarrow> 0 \<le> pout \<Longrightarrow>
   calculateCost i1 o1 pin pout \<le> calculateCost i2 o2 pin pout"
  unfolding calculateCost_def Let_def
  by (intro add_mono mult_right_mono divide_right_mono) simp_all

lemma calculateCost_rounded_nonneg:
  assumes "mono rnd" and "rnd 0 = 0"
    and "0 \<le> i" and "0 \<le> out" and "0 \<le> pin" and "0 \<le> pout"
  shows "0 \<le> calculateCost_rounded rnd i out pin pout"
proof -
  have nn: "0 \<le> rnd x" if "0 \<le> x" for x
    using monoD [OF assms(1) that] assms(2) by simp
  have "0 \<le> rnd (rnd (i / 1000000) * pin)"
    using assms by (intro nn mult_nonneg_nonneg) simp_all
  moreover have "0 \<le> rnd (rnd (out / 1000000) * pout)"
    using assms by (intro nn mult_nonneg_nonneg) simp_all
  ultimately have "0 \<le> rnd (rnd (i / 1000000) * pin) + rnd (rnd (out / 1000000) * pout)"
    by (rule add_nonneg_nonneg)
  then show ?thesis
    unfolding calculateCost_rounded_def Let_def by (rule nn)
qed

lemma calculateCost_rounded_mono:
  assumes "mono rnd" and "i1 \<le> i2" and "o1 \<le> o2" and "0 \<le> pin" and "0 \<le> pout"
  shows "calculateCost_rounded rnd i1 o1 pin pout \<le> calculateCost_rounded rnd i2 o2 pin pout"
  unfolding calculateCost_rounded_def Let_def
  using assms
  by (intro monoD [OF assms(1)] add_mono mult_right_mono divide_right_mono) simp_all

lemma mono_roundMicro: "mono roundMicro"
  by (rule monoI) (simp add: roundMicro_def floor_mono divide_right_mono)

lemma roundMicro_0: "roundMicro 0 = 0"
  by (simp add: roundMicro_def)

lemma estimateCost_mono_real:
  "i1 \<le> i2 \<Longrightarrow> o1 \<le> o2 \<Longrightarrow> estimateCost a i1 o1 m \<le> estimateCost a i2 o2 m"
  by (cases a)
    (simp_all add: Let_def calculateCost_mono getModelPricing_xai_nonneg getModelPricing_openai_nonneg
      getModelPricing_groq_nonneg getModelPricing_gemini_nonneg getModelPricing_anthropic_nonneg)

lemma tier_xai: "tierByMatchKey Xai m = getModelPricing_xai m"
  unfolding tierByMatchKey_def getModelPricing_xai_def pricingLoop_find
    tableOf.simps defaultTier.simps matchKey.simps by simp

lemma tier_openai: "tierByMatchKey Openai m = getModelPricing_openai m"
  unfolding tierByMatchKey_def getModelPricing_openai_def pricingLoop_find
    tableOf.simps defaultTier.simps matchKey.simps by simp

lemma tier_groq: "tierByMatchKey Groq m = getModelPricing_groq m"
  unfolding tierByMatchKey_def getModelPricing_groq_def pricingLoop_find
    tableOf.simps defaultTier.simps matchKey.simps by simp

lemma tier_gemini: "tierByMatchKey Gemini m = getModelPricing_gemini m"
  unfolding tierByMatchKey_def getModelPricing_gemini_def pricingLoop_find
    tableOf.simps defaultTier.simps matchKey.simps by simp

lemma tier_anthropic: "tierByMatchKey Anthropic m = getModelPricing_anthropic m"
  unfolding tierByMatchKey_def getModelPricing_anthropic_def pricingLoop_find
    tableOf.simps defaultTier.simps matchKey.simps by simp

lemma tier_openrouter:
  "tierByMatchKey Openrouter m = \<lparr>inputPrice = 1.0, outputPrice = 2.0\<rparr>"
  unfolding tierByMatchKey_def tableOf.simps defaultTier.simps by simp

lemma estimateCost_tier: "estimateCost a i out m =
    calculateCost i out (inputPrice (tierByMatchKey a m)) (outputPrice (tierByMatchKey a m))"
  by (cases a)
    (simp_all add: tier_xai tier_openai tier_groq tier_gemini tier_anthropic tier_openrouter
      Let_def)

lemma estimateCost_rounded_tier: "estimateCost_rounded rnd a i out m =
    calculateCost_rounded rnd i out (inputPrice (tierByMatchKey a m))
      (outputPrice (tierByMatchKey a m))"
  by (cases a)
    (simp_all add: tier_xai tier_openai tier_groq tier_gemini tier_anthropic tier_openrouter
      Let_def)

lemma tierByMatchKey_nonneg:
  "0 \<le> inputPrice (tierByMatchKey a m) \<and> 0 \<le> outputPrice (tierByMatchKey a m)"
  by (cases a)
    (simp_all add: tier_xai tier_openai tier_groq tier_gemini tier_anthropic tier_openrouter
      getModelPricing_xai_nonneg getModelPricing_openai_nonneg getModelPricing_groq_nonneg
      getModelPricing_gemini_nonneg getModelPricing_anthropic_nonneg)

subsection \<open>Claims about the estimator\<close>


text \<open>
  C7. For every adapter and model id, the estimated cost does not decrease when the
  input token count, the output token count or both grow: for natural numbers
  \<open>i1 \<le> i2\<close> and \<open>o1 \<le> o2\<close> the cost at \<open>(i1, o1)\<close> is at most the cost at \<open>(i2, o2)\<close>.
  This holds for the exact computation and for the computation under any monotone
  rounding.
\<close>

theorem C7_estimateCost_monotone:
  fixes i1 i2 o1 o2 :: nat
  assumes "i1 \<le> i2" and "o1 \<le> o2"
  shows "estimateCost a (real i1) (real o1) m \<le> estimateCost a (real i2) (real o2) m \<and>
         (mono rnd \<longrightarrow>
            estimateCost_rounded rnd a (real i1) (real o1) m
              \<le> estimateCost_rounded rnd a (real i2) (real o2) m)"
proof -
  have exact: "estimateCost a (real i1) (real o1) m \<le> estimateCost a (real i2) (real o2) m"
    using assms by (intro estimateCost_mono_real) simp_all
  have rounded: "estimateCost_rounded rnd a (real i1) (real o1) m
      \<le> estimateCost_rounded rnd a (real i2) (real o2) m" if "mono rnd"
    unfolding estimateCost_rounded_tier
    using that assms tierByMatchKey_nonneg [of a m]
    by (intro calculateCost_rounded_mono) simp_all
  from exact rounded show ?thesis by blast
qed

theorem C7_estimateCost_monotone_witness:
  "(120::nat) \<le> 4000 \<and> (7::nat) \<le> 7 \<and> mono roundMicro \<and>
   estimateCost Groq (real (120::nat)) (real (7::nat)) ''llama-3.1-8b-instant''
     \<le> estimateCost Groq (real (4000::nat)) (real (7::nat)) ''llama-3.1-8b-instant'' \<and>
   estimateCost Groq (real (120::nat)) (real (7::nat)) ''llama-3.1-8b-instant'' = 656 / 100000000 \<and>
   estimateCost Groq (real (4000::nat)) (real (7::nat)) ''llama-3.1-8b-instant'' = 20056 / 100000000 \<and>
   estimateCost_rounded roundMicro Groq (real (120::nat)) (real (7::nat)) ''llama-3.1-8b-instant''
     \<le> estimateCost_rounded roundMicro Groq (real (4000::nat)) (real (7::nat))
         ''llama-3.1-8b-instant'' \<and>
   estimateCost_rounded roundMicro Groq (real (120::nat)) (real (7::nat)) ''llama-3.1-8b-instant''
     = 7 / 1000000 \<and>
   estimateCost_rounded roundMicro Groq (real (4000::nat)) (real (7::nat)) ''llama-3.1-8b-instant''
     = 201 / 1000000"
proof -
  have a: "(120::nat) \<le> 4000" and b: "(7::nat) \<le> 7" by simp_all
  have t: "getModelPricing_groq ''llama-3.1-8b-instant''
      = \<lparr>inputPrice = 0.05, outputPrice = 0.08\<rparr>"
    by code_simp
  have v1: "estimateCost Groq (real (120::nat)) (real (7::nat)) ''llama-3.1-8b-instant'' = 656 / 100000000"
    by (simp add: t calculateCost_def)
  have v2: "estimateCost Groq (real (4000::nat)) (real (7::nat)) ''llama-3.1-8b-instant'' = 20056 / 100000000"
    by (simp add: t calculateCost_def)
  have r1: "estimateCost_rounded roundMicro Groq (real (120::nat)) (real (7::nat))
      ''llama-3.1-8b-instant'' = 7 / 1000000"
    by (simp add: t calculateCost_rounded_def roundMicro_def)
  have r2: "estimateCost_rounded roundMicro Groq (real (4000::nat)) (real (7::nat))
      ''llama-3.1-8b-instant'' = 201 / 1000000"
    by (simp add: t calculateCost_rounded_def roundMicro_def)
  from C7_estimateCost_monotone [OF a b, of Groq "''llama-3.1-8b-instant''" roundMicro]
    a b v1 v2 r1 r2 mono_roundMicro
  show ?thesis by simp
qed

text \<open>
  C10. For every adapter, every model id (also one that matches no key of the table)
  and all non-negative token counts, \<open>estimateCost\<close> returns a non-negative number: the
  lookup yields a tier with non-negative input and output prices. The functions have no
  failing branch: no path of the source throws. The result is non-negative for the
  exact computation and under any monotone rounding that keeps 0.
\<close>

theorem C10_estimateCost_nonneg:
  assumes "0 \<le> i" and "0 \<le> out"
  shows "0 \<le> estimateCost a i out m \<and>
         (mono rnd \<and> rnd 0 = 0 \<longrightarrow> 0 \<le> estimateCost_rounded rnd a i out m) \<and>
         0 \<le> inputPrice (tierByMatchKey a m) \<and> 0 \<le> outputPrice (tierByMatchKey a m) \<and>
         0 \<le> inputPrice (getModelPricing_xai m) \<and> 0 \<le> outputPrice (getModelPricing_xai m) \<and>
         0 \<le> inputPrice (getModelPricing_openai m) \<and> 0 \<le> outputPrice (getModelPricing_openai m) \<and>
         0 \<le> inputPrice (getModelPricing_groq m) \<and> 0 \<le> outputPrice (getModelPricing_groq m) \<and>
         0 \<le> inputPrice (getModelPricing_gemini m) \<and> 0 \<le> outputPrice (getModelPricing_gemini m) \<and>
         0 \<le> inputPrice (getModelPricing_anthropic m) \<and>
         0 \<le> outputPrice (getModelPricing_anthropic m)"
proof -
  have exact: "0 \<le> estimateCost a i out m"
    using assms tierByMatchKey_nonneg [of a m]
    by (simp add: estimateCost_tier calculateCost_nonneg)
  have rounded: "0 \<le> estimateCost_rounded rnd a i out m" if "mono rnd \<and> rnd 0 = 0"
    unfolding estimateCost_rounded_tier
    using that assms tierByMatchKey_nonneg [of a m]
    by (intro calculateCost_rounded_nonneg) simp_all
  from exact rounded show ?thesis
    using tierByMatchKey_nonneg [of a m]
      getModelPricing_xai_nonneg [of m] getModelPricing_openai_nonneg [of m]
      getModelPricing_groq_nonneg [of m] getModelPricing_gemini_nonneg [of m]
      getModelPricing_anthropic_nonneg [of m]
    by blast
qed

theorem C10_estimateCost_nonneg_witness:
  "(0::real) \<le> 1500 \<and> (0::real) \<le> 0 \<and> mono roundMicro \<and> roundMicro 0 = 0 \<and>
   0 \<le> estimateCost Anthropic 1500 0 ''no-such-model'' \<and>
   estimateCost Anthropic 1500 0 ''no-such-model'' = 45 / 10000 \<and>
   0 \<le> estimateCost_rounded roundMicro Anthropic 1500 0 ''no-such-model''"
proof -
  have a: "(0::real) \<le> 1500" and b: "(0::real) \<le> 0" by simp_all
  have t: "getModelPricing_anthropic ''no-such-model''
      = \<lparr>inputPrice = 3.00, outputPrice = 15.00\<rparr>"
    by code_simp
  have v: "estimateCost Anthropic 1500 0 ''no-such-model'' = 45 / 10000"
    by (simp add: t calculateCost_def)
  from C10_estimateCost_nonneg [OF a b, of Anthropic "''no-such-model''" roundMicro]
    a b v mono_roundMicro roundMicro_0
  show ?thesis by simp
qed

text \<open>
  C5, as the code has it. For every adapter, \<open>estimateCost\<close> prices the request at the
  tier of the first entry, in the table's declaration order, whose match text occurs in
  the lower-cased model id, and at the vendor's default tier when no entry matches. The
  match text is the key lower-cased; Gemini first removes \<open>gemini-\<close> from it, Anthropic
  removes \<open>claude-\<close> from the key as written. OpenRouter has no table: every model id
  gets its fixed tier 1.0 / 2.0, which is not zero. The lookup reads no state, so one id
  always gets the same tier.
\<close>

theorem C5_estimateCost_first_match:
  "estimateCost a i out m =
     calculateCost i out (inputPrice (tierByMatchKey a m)) (outputPrice (tierByMatchKey a m)) \<and>
   tierByMatchKey Xai m = getModelPricing_xai m \<and>
   tierByMatchKey Openai m = getModelPricing_openai m \<and>
   tierByMatchKey Groq m = getModelPricing_groq m \<and>
   tierByMatchKey Gemini m = getModelPricing_gemini m \<and>
   tierByMatchKey Anthropic m = getModelPricing_anthropic m \<and>
   tierByMatchKey Openrouter m = \<lparr>inputPrice = 1.0, outputPrice = 2.0\<rparr> \<and>
   estimateCost Openrouter i out m = calculateCost i out 1.0 2.0"
  using estimateCost_tier [of a i out m]
  by (simp add: tier_xai tier_openai tier_groq tier_gemini tier_anthropic tier_openrouter)

theorem C5_estimateCost_first_match_witness:
  "tierByMatchKey Xai ''grok-2-mini'' = \<lparr>inputPrice = 2.00, outputPrice = 10.00\<rparr> \<and>
   estimateCost Xai 1000000 0 ''grok-2-mini'' = 2 \<and>
   estimateCost Xai 1000000 0 ''GROK-BETA'' = 5 \<and>
   estimateCost Openrouter 1000000 1000000 ''anthropic/claude-3-5-sonnet'' = 3"
proof -
  have a: "getModelPricing_xai ''grok-2-mini'' = \<lparr>inputPrice = 2.00, outputPrice = 10.00\<rparr>"
    by code_simp
  have b: "getModelPricing_xai ''GROK-BETA'' = \<lparr>inputPrice = 5.00, outputPrice = 15.00\<rparr>"
    by code_simp
  from C5_estimateCost_first_match [of Xai 1000000 0 "''grok-2-mini''"]
  have 1: "estimateCost Xai 1000000 0 ''grok-2-mini''
      = calculateCost 1000000 0 (inputPrice (tierByMatchKey Xai ''grok-2-mini''))
          (outputPrice (tierByMatchKey Xai ''grok-2-mini''))"
    and 2: "tierByMatchKey Xai ''grok-2-mini'' = getModelPricing_xai ''grok-2-mini''"
    by blast+
  from C5_estimateCost_first_match [of Xai 1000000 0 "''GROK-BETA''"]
  have 3: "estimateCost Xai 1000000 0 ''GROK-BETA''
      = calculateCost 1000000 0 (inputPrice (tierByMatchKey Xai ''GROK-BETA''))
          (outputPrice (tierByMatchKey Xai ''GROK-BETA''))"
    and 4: "tierByMatchKey Xai ''GROK-BETA'' = getModelPricing_xai ''GROK-BETA''"
    by blast+
  from C5_estimateCost_first_match [of Openrouter 1000000 1000000 "''anthropic/claude-3-5-sonnet''"]
  have 5: "estimateCost Openrouter 1000000 1000000 ''anthropic/claude-3-5-sonnet''
      = calculateCost 1000000 1000000 1.0 2.0"
    by blast
  have t: "tierByMatchKey Xai ''grok-2-mini'' = \<lparr>inputPrice = 2.00, outputPrice = 10.00\<rparr>"
    unfolding 2 a ..
  have c1: "estimateCost Xai 1000000 0 ''grok-2-mini'' = 2"
    unfolding 1 2 a by (simp add: calculateCost_def)
  have c2: "estimateCost Xai 1000000 0 ''GROK-BETA'' = 5"
    unfolding 3 4 b by (simp add: calculateCost_def)
  have c3: "estimateCost Openrouter 1000000 1000000 ''anthropic/claude-3-5-sonnet'' = 3"
    unfolding 5 by (simp add: calculateCost_def)
  from t c1 c2 c3 show ?thesis by blast
qed

text \<open>
  C5 as stated fails: the Gemini model id \<open>learnlm-2.0-flash-experimental\<close> contains no
  key of the Gemini table, so containment of the keys gives the default tier
  0.15 / 0.60, while the adapter finds \<open>2.0-flash\<close> in it and returns 0.10 / 0.40.
\<close>

theorem C5_containment_counterexample:
  "tierByContainment GEMINI_PRICING \<lparr>inputPrice = 0.15, outputPrice = 0.60\<rparr>
       ''learnlm-2.0-flash-experimental'' = \<lparr>inputPrice = 0.15, outputPrice = 0.60\<rparr> \<and>
   getModelPricing_gemini ''learnlm-2.0-flash-experimental''
     = \<lparr>inputPrice = 0.10, outputPrice = 0.40\<rparr> \<and>
   estimateCost Gemini 1000000 0 ''learnlm-2.0-flash-experimental'' = 0.10 \<and>
   getModelPricing_gemini ''learnlm-2.0-flash-experimental''
     \<noteq> tierByContainment GEMINI_PRICING \<lparr>inputPrice = 0.15, outputPrice = 0.60\<rparr>
         ''learnlm-2.0-flash-experimental''"
proof -
  have spec: "tierByContainment GEMINI_PRICING \<lparr>inputPrice = 0.15, outputPrice = 0.60\<rparr>
       ''learnlm-2.0-flash-experimental'' = \<lparr>inputPrice = 0.15, outputPrice = 0.60\<rparr>"
    by code_simp
  have code: "getModelPricing_gemini ''learnlm-2.0-flash-experimental''
     = \<lparr>inputPrice = 0.10, outputPrice = 0.40\<rparr>"
    by code_simp
  show ?thesis
    unfolding spec estimateCost.simps code by (simp add: calculateCost_def)
qed

section \<open>Properties of the conversation store\<close>

lemma findIndex_ge: "- 1 \<le> findIndex P xs"
  by (induction xs) (auto simp: Let_def)

lemma findIndex_none: "findIndex P xs < 0 \<longleftrightarrow> (\<forall>x \<in> set xs. \<not> P x)"
  using findIndex_ge [of P] by (induction xs) (auto simp: Let_def)

lemma findIndex_bound: "findIndex P xs < int (length xs)"
  by (induction xs) (auto simp: Let_def)

lemma findIndex_hit:
  "0 \<le> findIndex P xs \<Longrightarrow> P (xs ! nat (findIndex P xs))"
  by (induction xs) (auto simp: Let_def nat_add_distrib split: if_splits)

lemma findIndex_unique:
  "i < length xs \<Longrightarrow> P (xs ! i) \<Longrightarrow> (\<forall>j < i. \<not> P (xs ! j)) \<Longrightarrow> findIndex P xs = int i"
proof (induction xs arbitrary: i)
  case Nil
  then show ?case by simp
next
  case (Cons x xs)
  show ?case
  proof (cases i)
    case 0
    with Cons.prems show ?thesis by simp
  next
    case (Suc k)
    with Cons.prems have "\<not> P x" by auto
    moreover from Suc Cons.prems have "findIndex P xs = int k"
      by (intro Cons.IH) auto
    ultimately show ?thesis using Suc by (simp add: Let_def)
  qed
qed

lemma find_update_first:
  "0 \<le> findIndex (\<lambda>x. f x = f c) xs \<Longrightarrow>
   find (\<lambda>x. f x = k) (xs[nat (findIndex (\<lambda>x. f x = f c) xs) := c])
     = (if k = f c then Some c else find (\<lambda>x. f x = k) xs)"
  by (induction xs) (auto simp: Let_def nat_add_distrib split: if_splits)

lemma findIndex_update_first:
  "0 \<le> findIndex (\<lambda>x. f x = f c) xs \<Longrightarrow>
   findIndex (\<lambda>x. f x = f c) (xs[nat (findIndex (\<lambda>x. f x = f c) xs) := c])
     = findIndex (\<lambda>x. f x = f c) xs"
  by (induction xs) (auto simp: Let_def nat_add_distrib split: if_splits)

lemma map_update_first:
  "0 \<le> findIndex (\<lambda>x. f x = f c) xs \<Longrightarrow>
   map f (xs[nat (findIndex (\<lambda>x. f x = f c) xs) := c]) = map f xs"
  using findIndex_hit [of "\<lambda>x. f x = f c" xs]
  by (simp add: map_update list_update_same_conv findIndex_bound nat_less_iff)

lemma getConversation_save:
  "getConversation (saveConversation c st) k
     = (if k = conv_id c then Some c else getConversation st k)"
  using findIndex_none [of "\<lambda>x. conv_id x = conv_id c" "getConversations st"]
  by (auto simp: getConversation_def saveConversation_def Let_def find_update_first
      getConversations_def find_None_iff split: option.splits)

lemma saveConversation_idem:
  "saveConversation c (saveConversation c st) = saveConversation c st"
  by (auto simp: saveConversation_def Let_def getConversations_def findIndex_update_first)

lemma saveConversation_distinct:
  "distinct (map conv_id (getConversations st)) \<Longrightarrow>
   distinct (map conv_id (getConversations (saveConversation c st)))"
  using findIndex_none [of "\<lambda>x. conv_id x = conv_id c" "getConversations st"]
  by (auto simp: saveConversation_def Let_def getConversations_def map_update_first
        split: option.splits)

lemma saveConversation_replace:
  assumes "i < length (getConversations st)"
    and "conv_id (getConversations st ! i) = conv_id c"
    and "\<forall>j < i. conv_id (getConversations st ! j) \<noteq> conv_id c"
  shows "saveConversation c st = Some ((getConversations st)[i := c])"
  using findIndex_unique [of i "getConversations st" "\<lambda>x. conv_id x = conv_id c"] assms
  by (simp add: saveConversation_def Let_def)

lemma saveConversation_prepend:
  assumes "\<forall>x \<in> set (getConversations st). conv_id x \<noteq> conv_id c"
  shows "saveConversation c st = Some (c # getConversations st)"
  using findIndex_none [of "\<lambda>x. conv_id x = conv_id c" "getConversations st"] assms
  by (simp add: saveConversation_def Let_def)

lemma conv_id_sampleConversation [simp]: "conv_id (sampleConversation tag ms) = ''conv-'' @ tag"
  by (simp add: sampleConversation_def createNewConversation_def sampleEnv_def)

text \<open>
  C9. Right after \<open>saveConversation c\<close>, \<open>getConversation\<close> of \<open>c\<close>'s id returns \<open>c\<close>,
  whatever was stored before. When an entry with that id exists, the first such entry
  is replaced in place; otherwise \<open>c\<close> is put in front. A store whose ids are pairwise
  different stays so, and saving the same conversation a second time changes nothing.
\<close>

theorem C9_saveConversation:
  "getConversation (saveConversation c st) (conv_id c) = Some c \<and>
   (\<forall>i. i < length (getConversations st) \<and>
        conv_id (getConversations st ! i) = conv_id c \<and>
        (\<forall>j < i. conv_id (getConversations st ! j) \<noteq> conv_id c)
        \<longrightarrow> saveConversation c st = Some ((getConversations st)[i := c])) \<and>
   ((\<forall>x \<in> set (getConversations st). conv_id x \<noteq> conv_id c)
        \<longrightarrow> saveConversation c st = Some (c # getConversations st)) \<and>
   (distinct (map conv_id (getConversations st))
        \<longrightarrow> distinct (map conv_id (getConversations (saveConversation c st)))) \<and>
   saveConversation c (saveConversation c st) = saveConversation c st"
  using saveConversation_replace [of _ st c] saveConversation_prepend [of st c]
  by (simp add: getConversation_save saveConversation_idem saveConversation_distinct)

theorem C9_saveConversation_witness:
  "saveConversation ((sampleConversation ''b'' [])\<lparr>title := ''renamed''\<rparr>)
       (Some [sampleConversation ''a'' [], sampleConversation ''b'' []])
     = Some [sampleConversation ''a'' [], (sampleConversation ''b'' [])\<lparr>title := ''renamed''\<rparr>] \<and>
   saveConversation (sampleConversation ''b'' []) (Some [sampleConversation ''a'' []])
     = Some [sampleConversation ''b'' [], sampleConversation ''a'' []] \<and>
   distinct (map conv_id [sampleConversation ''a'' [], sampleConversation ''b'' []]) \<and>
   distinct (map conv_id (getConversations
     (saveConversation ((sampleConversation ''b'' [])\<lparr>title := ''renamed''\<rparr>)
       (Some [sampleConversation ''a'' [], sampleConversation ''b'' []])))) \<and>
   getConversation
     (saveConversation ((sampleConversation ''b'' [])\<lparr>title := ''renamed''\<rparr>)
       (Some [sampleConversation ''a'' [], sampleConversation ''b'' []])) ''conv-b''
     = Some ((sampleConversation ''b'' [])\<lparr>title := ''renamed''\<rparr>)"
proof -
  let ?a = "sampleConversation ''a'' []" and ?b = "sampleConversation ''b'' []"
  let ?b' = "(sampleConversation ''b'' [])\<lparr>title := ''renamed''\<rparr>"
  have d: "distinct (map conv_id (getConversations (Some [?a, ?b])))"
    by (simp add: getConversations_def)
  have r: "Suc 0 < length (getConversations (Some [?a, ?b])) \<and>
        conv_id (getConversations (Some [?a, ?b]) ! Suc 0) = conv_id ?b' \<and>
        (\<forall>j < Suc 0. conv_id (getConversations (Some [?a, ?b]) ! j) \<noteq> conv_id ?b')"
    by (simp add: getConversations_def)
  have p: "\<forall>x \<in> set (getConversations (Some [?a])). conv_id x \<noteq> conv_id ?b"
    by (simp add: getConversations_def)
  from C9_saveConversation [of ?b' "Some [?a, ?b]"] r d
  have 1: "saveConversation ?b' (Some [?a, ?b]) = Some ((getConversations (Some [?a, ?b]))[Suc 0 := ?b'])"
    and 2: "distinct (map conv_id (getConversations (saveConversation ?b' (Some [?a, ?b]))))"
    and 3: "getConversation (saveConversation ?b' (Some [?a, ?b])) (conv_id ?b') = Some ?b'"
    by blast+
  from C9_saveConversation [of ?b "Some [?a]"] p
  have 4: "saveConversation ?b (Some [?a]) = Some (?b # getConversations (Some [?a]))"
    by blast
  from 1 2 3 4 d show ?thesis
    by (simp add: getConversations_def)
qed

section \<open>Properties of the streaming adapters\<close>

lemma tokensOf_append: "tokensOf (xs @ ys) = tokensOf xs @ tokensOf ys"
  by (induction xs rule: tokensOf.induct) simp_all

lemma tokensOf_map_OnToken: "tokensOf (map OnToken ts) = ts"
  by (induction ts) simp_all

lemma tokensOf_snoc_terminal:
  "isTerminal cb \<Longrightarrow> tokensOf (map OnToken ts @ [cb]) = ts"
  by (cases cb) (simp_all add: tokensOf_append tokensOf_map_OnToken)

lemma filter_isTerminal_tokens: "filter isTerminal (map OnToken ts) = []"
  by (induction ts) simp_all

lemma filter_isOnError_tokens: "filter isOnError (map OnToken ts) = []"
  by (induction ts) simp_all

lemma processLine_shape:
  "processLine payload full line = (full', cbs) \<Longrightarrow>
   cbs = map OnToken (tokensOf cbs) \<and> full' = full @ concat (tokensOf cbs)"
  by (auto simp: processLine_def Let_def split: if_splits option.splits)

lemma processLines_shape:
  "processLines payload full ls = (full', cbs) \<Longrightarrow>
   cbs = map OnToken (tokensOf cbs) \<and> full' = full @ concat (tokensOf cbs)"
proof (induction ls arbitrary: full full' cbs)
  case Nil
  then show ?case by simp
next
  case (Cons l ls)
  obtain f1 c1 where 1: "processLine payload full l = (f1, c1)" by force
  obtain f2 c2 where 2: "processLines payload f1 ls = (f2, c2)" by force
  from Cons.prems 1 2 have r: "full' = f2" "cbs = c1 @ c2" by simp_all
  from processLine_shape [OF 1] Cons.IH [OF 2] r show ?case
    by (simp add: tokensOf_append)
qed

lemma readLoop_shape:
  "readLoop payload full cs = (full', cbs) \<Longrightarrow>
   cbs = map OnToken (tokensOf cbs) \<and> full' = full @ concat (tokensOf cbs)"
proof (induction cs arbitrary: full full' cbs)
  case Nil
  then show ?case by simp
next
  case (Cons c cs)
  obtain f1 c1 where 1: "processLines payload full (splitOn CHR 0x0A c) = (f1, c1)" by force
  obtain f2 c2 where 2: "readLoop payload f1 cs = (f2, c2)" by force
  from Cons.prems 1 2 have r: "full' = f2" "cbs = c1 @ c2" by simp_all
  from processLines_shape [OF 1] Cons.IH [OF 2] r show ?case
    by (simp add: tokensOf_append)
qed

lemma isTerminal_closing: "isTerminal (closing e ts)"
  by (simp add: closing_def split: ReadEnd.splits)

lemma readBody_shape:
  "\<exists>ts. readBody payload b = map OnToken ts @ [closing (ending b) ts]"
proof -
  obtain f c where 1: "readLoop payload [] (chunks b) = (f, c)" by force
  from readLoop_shape [OF 1] have "c = map OnToken (tokensOf c)" "f = concat (tokensOf c)"
    by simp_all
  then show ?thesis
    using 1
    by (intro exI [of _ "tokensOf c"])
      (auto simp: readBody_def closing_def split: ReadEnd.splits)
qed

lemma streamChat_reading:
  assumes "ok response" and "body response = Some reader"
  shows "streamChat p payload (FetchResolves response) = (readBody payload reader, Resolved)"
  using assms by (simp add: streamChat_def)

lemma streamChat_shape:
  "(fst (streamChat p payload net) = [] \<and> snd (streamChat p payload net) \<noteq> Resolved) \<or>
   (\<exists>ts cb. isTerminal cb \<and> fst (streamChat p payload net) = map OnToken ts @ [cb] \<and>
      snd (streamChat p payload net) = Resolved)"
proof (cases net)
  case (FetchRejects err)
  then show ?thesis by (simp add: streamChat_def)
next
  case (FetchResolves r)
  show ?thesis
  proof (cases "ok r")
    case False
    with FetchResolves show ?thesis
      by (simp add: streamChat_def split: sum.splits)
  next
    case True
    show ?thesis
    proof (cases "body r")
      case None
      with True FetchResolves show ?thesis by (simp add: streamChat_def)
    next
      case (Some b)
      from readBody_shape [of payload b] obtain ts
        where "readBody payload b = map OnToken ts @ [closing (ending b) ts]" ..
      with streamChat_reading [OF True Some, of p payload] FetchResolves isTerminal_closing
      show ?thesis by auto
    qed
  qed
qed

lemma sample_readBody_abort:
  "readBody samplePayload \<lparr>chunks = [sampleChunk], ending = ReadThrows abortError\<rparr>
     = [OnToken ''Hel'', OnToken ''lo'', OnComplete ''Hello'']"
  by code_simp

lemma sample_readBody_fail:
  "readBody samplePayload \<lparr>chunks = [sampleChunk], ending = ReadThrows (newError ''network error'')\<rparr>
     = [OnToken ''Hel'', OnToken ''lo'', OnError (newError ''network error'')]"
  by code_simp

text \<open>
  C1. For every adapter (every provider and every payload decoder): when the response
  is OK and has a body, and a \<open>read()\<close> of the body is rejected with an \<open>AbortError\<close>
  after any number of chunks, the adapter's callbacks are the tokens it delivered
  followed by exactly one \<open>onComplete\<close> with their concatenation; it never calls
  \<open>onError\<close>, and its promise resolves.
\<close>

theorem C1_abort_completes:
  assumes "ok response" and "body response = Some reader"
    and "ending reader = ReadThrows err"
    and "instanceofError err" and "err_name err = ''AbortError''"
  shows "let run = streamChat p payload (FetchResolves response);
             ts = tokensOf (fst run)
         in fst run = map OnToken ts @ [OnComplete (concat ts)] \<and>
            filter isTerminal (fst run) = [OnComplete (concat ts)] \<and>
            filter isOnError (fst run) = [] \<and>
            snd run = Resolved"
proof -
  obtain us where us: "readBody payload reader = map OnToken us @ [OnComplete (concat us)]"
    using readBody_shape [of payload reader] assms(3-5) by (auto simp: closing_def)
  have t: "tokensOf (readBody payload reader) = us"
    unfolding us by (simp add: tokensOf_snoc_terminal)
  show ?thesis
    unfolding streamChat_reading [OF assms(1,2)] Let_def fst_conv snd_conv t
    unfolding us by (simp add: filter_isTerminal_tokens filter_isOnError_tokens)
qed

theorem C1_abort_completes_witness:
  "ok \<lparr>ok = True, responseText = Inr [],
        body = Some \<lparr>chunks = [sampleChunk], ending = ReadThrows abortError\<rparr>\<rparr> \<and>
   instanceofError abortError \<and> err_name abortError = ''AbortError'' \<and>
   streamChat Openai samplePayload
     (FetchResolves \<lparr>ok = True, responseText = Inr [],
        body = Some \<lparr>chunks = [sampleChunk], ending = ReadThrows abortError\<rparr>\<rparr>)
     = ([OnToken ''Hel'', OnToken ''lo'', OnComplete ''Hello''], Resolved) \<and>
   filter isTerminal (fst (streamChat Openai samplePayload
     (FetchResolves \<lparr>ok = True, responseText = Inr [],
        body = Some \<lparr>chunks = [sampleChunk], ending = ReadThrows abortError\<rparr>\<rparr>)))
     = [OnComplete ''Hello'']"
proof -
  let ?reader = "\<lparr>chunks = [sampleChunk], ending = ReadThrows abortError\<rparr>"
  let ?response = "\<lparr>ok = True, responseText = Inr [], body = Some ?reader\<rparr>"
  have h: "ok ?response" "body ?response = Some ?reader" "ending ?reader = ReadThrows abortError"
    "instanceofError abortError" "err_name abortError = ''AbortError''"
    by (simp_all add: abortError_def)
  have run: "streamChat Openai samplePayload (FetchResolves ?response)
      = ([OnToken ''Hel'', OnToken ''lo'', OnComplete ''Hello''], Resolved)"
    by (simp add: streamChat_def sample_readBody_abort)
  from C1_abort_completes [OF h, of Openai samplePayload] h run
  show ?thesis by (simp add: Let_def)
qed

lemma sample_readBody_done:
  "readBody samplePayload \<lparr>chunks = [sampleChunk], ending = StreamDone\<rparr>
     = [OnToken ''Hel'', OnToken ''lo'', OnComplete ''Hello'']"
  by code_simp

lemma streamChat_reading_run:
  assumes "ok r" and "body r = Some b"
  shows "fst (streamChat p payload (FetchResolves r))
      = map OnToken (tokensOf (fst (streamChat p payload (FetchResolves r))))
          @ [closing (ending b) (tokensOf (fst (streamChat p payload (FetchResolves r))))] \<and>
    snd (streamChat p payload (FetchResolves r)) = Resolved"
proof -
  obtain us where us: "readBody payload b = map OnToken us @ [closing (ending b) us]"
    using readBody_shape [of payload b] by blast
  have t: "tokensOf (readBody payload b) = us"
    unfolding us by (simp add: tokensOf_snoc_terminal isTerminal_closing)
  show ?thesis
    unfolding streamChat_reading [OF assms] fst_conv snd_conv t by (simp add: us)
qed

lemma catchRejected_surfaces:
  assumes "instanceofError e" and "err_name e \<noteq> ''AbortError''"
    and "\<not> (fl = SendFlow \<and> str_includes (message e) ''Developer instruction is not enabled'')"
  shows "catchRejected fl e s
      = s\<lparr>error := Some (message e), isLoading := False, streamingMessageId := None\<rparr>"
  using assms by (auto simp: catchRejected_def Let_def)

text \<open>
  C2, as the code has it. Every run of \<open>streamChat\<close> makes at most one terminal
  callback, and nothing after it. It makes exactly one when the response is OK and has
  a body, and then its promise resolves: \<open>onComplete\<close> with the concatenated tokens at
  the end of the stream and when a read is cancelled, one \<open>onError\<close> after the tokens
  delivered so far on any other read error. When \<open>fetch\<close> rejects, when the status is
  not a success or when the body is missing, the adapter makes no callback: its promise
  rejects with the error (for a non-success status, an \<open>Error\<close> whose message is the
  vendor's prefix and the response text, or the error of reading that text). The
  \<open>catch\<close> of the calling handler then clears the loading and streaming markers; for
  an \<open>Error\<close> not named \<open>AbortError\<close> it sets the page's error to the message, except
  that Send opens the system-prompt dialog instead when the message contains
  \<open>Developer instruction is not enabled\<close>.
\<close>

theorem C2_terminal_callbacks:
  "length (filter isTerminal (fst (streamChat p payload net))) \<le> 1 \<and>
   (snd (streamChat p payload net) = Resolved
      \<longleftrightarrow> length (filter isTerminal (fst (streamChat p payload net))) = 1) \<and>
   (snd (streamChat p payload net) \<noteq> Resolved \<longrightarrow> fst (streamChat p payload net) = []) \<and>
   (\<forall>cb \<in> set (fst (streamChat p payload net)).
      isTerminal cb \<longrightarrow> last (fst (streamChat p payload net)) = cb) \<and>
   streamChat p payload (FetchRejects err) = ([], Rejected err) \<and>
   (\<not> ok r \<and> responseText r = Inr errText \<longrightarrow>
      streamChat p payload (FetchResolves r)
        = ([], Rejected (newError (apiErrorPrefix p @ errText)))) \<and>
   (\<not> ok r \<and> responseText r = Inl err \<longrightarrow>
      streamChat p payload (FetchResolves r) = ([], Rejected err)) \<and>
   (ok r \<and> body r = None \<longrightarrow>
      streamChat p payload (FetchResolves r) = ([], Rejected (newError ''No response body''))) \<and>
   (ok r \<and> body r = Some b \<longrightarrow>
      snd (streamChat p payload (FetchResolves r)) = Resolved \<and>
      length (filter isTerminal (fst (streamChat p payload (FetchResolves r)))) = 1) \<and>
   (ok r \<and> body r = Some b \<and> ending b = StreamDone \<longrightarrow>
      fst (streamChat p payload (FetchResolves r))
        = map OnToken (tokensOf (fst (streamChat p payload (FetchResolves r))))
            @ [OnComplete (concat (tokensOf (fst (streamChat p payload (FetchResolves r)))))]) \<and>
   (ok r \<and> body r = Some b \<and> ending b = ReadThrows e \<and>
    instanceofError e \<and> err_name e = ''AbortError'' \<longrightarrow>
      fst (streamChat p payload (FetchResolves r))
        = map OnToken (tokensOf (fst (streamChat p payload (FetchResolves r))))
            @ [OnComplete (concat (tokensOf (fst (streamChat p payload (FetchResolves r)))))]) \<and>
   (ok r \<and> body r = Some b \<and> ending b = ReadThrows e \<and>
    \<not> (instanceofError e \<and> err_name e = ''AbortError'') \<longrightarrow>
      fst (streamChat p payload (FetchResolves r))
        = map OnToken (tokensOf (fst (streamChat p payload (FetchResolves r)))) @ [OnError e] \<and>
      snd (streamChat p payload (FetchResolves r)) = Resolved) \<and>
   (instanceofError e \<and> err_name e \<noteq> ''AbortError'' \<and>
    \<not> (fl = SendFlow \<and> str_includes (message e) ''Developer instruction is not enabled'') \<longrightarrow>
      catchRejected fl e s
        = s\<lparr>error := Some (message e), isLoading := False, streamingMessageId := None\<rparr>) \<and>
   (\<not> (fl = SendFlow \<and>
        str_includes (apiErrorPrefix p @ errText) ''Developer instruction is not enabled'') \<longrightarrow>
      catchRejected fl (newError (apiErrorPrefix p @ errText)) s
        = s\<lparr>error := Some (apiErrorPrefix p @ errText), isLoading := False,
            streamingMessageId := None\<rparr>) \<and>
   (instanceofError e \<and> err_name e \<noteq> ''AbortError'' \<and>
    str_includes (message e) ''Developer instruction is not enabled'' \<longrightarrow>
      catchRejected SendFlow e s
        = s\<lparr>systemPromptWarningOpen := True, isLoading := False,
            streamingMessageId := None\<rparr>) \<and>
   (\<not> (instanceofError e \<and> err_name e \<noteq> ''AbortError'') \<longrightarrow>
      catchRejected fl e s = s\<lparr>isLoading := False, streamingMessageId := None\<rparr>)"
proof -
  let ?tr = "fst (streamChat p payload net)" and ?st = "snd (streamChat p payload net)"
  let ?run = "streamChat p payload (FetchResolves r)"
  have g1: "length (filter isTerminal ?tr) \<le> 1"
    using streamChat_shape [of p payload net]
    by (auto simp: filter_isTerminal_tokens)
  have g2: "?st = Resolved \<longleftrightarrow> length (filter isTerminal ?tr) = 1"
    using streamChat_shape [of p payload net]
    by (auto simp: filter_isTerminal_tokens)
  have g3: "?st \<noteq> Resolved \<longrightarrow> ?tr = []"
    using streamChat_shape [of p payload net]
    by (auto simp: filter_isTerminal_tokens)
  have g4: "\<forall>cb \<in> set ?tr. isTerminal cb \<longrightarrow> last ?tr = cb"
    using streamChat_shape [of p payload net]
    by (auto simp: filter_isTerminal_tokens)
  have rej: "streamChat p payload (FetchRejects err) = ([], Rejected err)"
    by (simp add: streamChat_def)
  have http: "\<not> ok r \<and> responseText r = Inr errText \<longrightarrow>
      ?run = ([], Rejected (newError (apiErrorPrefix p @ errText)))"
    by (simp add: streamChat_def)
  have http2: "\<not> ok r \<and> responseText r = Inl err \<longrightarrow> ?run = ([], Rejected err)"
    by (simp add: streamChat_def)
  have nobody: "ok r \<and> body r = None \<longrightarrow>
      ?run = ([], Rejected (newError ''No response body''))"
    by (simp add: streamChat_def)
  have one: "ok r \<and> body r = Some b \<longrightarrow>
      snd ?run = Resolved \<and> length (filter isTerminal (fst ?run)) = 1"
  proof (intro impI)
    assume a: "ok r \<and> body r = Some b"
    then have sh: "fst ?run = map OnToken (tokensOf (fst ?run))
          @ [closing (ending b) (tokensOf (fst ?run))]" and res: "snd ?run = Resolved"
      using streamChat_reading_run [of r b p payload] by simp_all
    have "length (filter isTerminal (fst ?run)) = 1"
      by (subst sh) (simp add: filter_isTerminal_tokens isTerminal_closing)
    with res show "snd ?run = Resolved \<and> length (filter isTerminal (fst ?run)) = 1"
      by simp
  qed
  have fin: "ok r \<and> body r = Some b \<and> ending b = StreamDone \<longrightarrow>
      fst ?run = map OnToken (tokensOf (fst ?run)) @ [OnComplete (concat (tokensOf (fst ?run)))]"
    using streamChat_reading_run [of r b p payload] by (auto simp: closing_def)
  have abort: "ok r \<and> body r = Some b \<and> ending b = ReadThrows e \<and>
      instanceofError e \<and> err_name e = ''AbortError'' \<longrightarrow>
      fst ?run = map OnToken (tokensOf (fst ?run)) @ [OnComplete (concat (tokensOf (fst ?run)))]"
    using streamChat_reading_run [of r b p payload] by (auto simp: closing_def)
  have fail: "ok r \<and> body r = Some b \<and> ending b = ReadThrows e \<and>
      \<not> (instanceofError e \<and> err_name e = ''AbortError'') \<longrightarrow>
      fst ?run = map OnToken (tokensOf (fst ?run)) @ [OnError e] \<and> snd ?run = Resolved"
    using streamChat_reading_run [of r b p payload] by (auto simp: closing_def)
  have c1: "instanceofError e \<and> err_name e \<noteq> ''AbortError'' \<and>
      \<not> (fl = SendFlow \<and> str_includes (message e) ''Developer instruction is not enabled'') \<longrightarrow>
      catchRejected fl e s
        = s\<lparr>error := Some (message e), isLoading := False, streamingMessageId := None\<rparr>"
    using catchRejected_surfaces [of e fl s] by blast
  have c2: "\<not> (fl = SendFlow \<and>
        str_includes (apiErrorPrefix p @ errText) ''Developer instruction is not enabled'') \<longrightarrow>
      catchRejected fl (newError (apiErrorPrefix p @ errText)) s
        = s\<lparr>error := Some (apiErrorPrefix p @ errText), isLoading := False,
            streamingMessageId := None\<rparr>"
    using catchRejected_surfaces [of "newError (apiErrorPrefix p @ errText)" fl s]
    by (simp add: newError_def)
  have c3: "instanceofError e \<and> err_name e \<noteq> ''AbortError'' \<and>
      str_includes (message e) ''Developer instruction is not enabled'' \<longrightarrow>
      catchRejected SendFlow e s
        = s\<lparr>systemPromptWarningOpen := True, isLoading := False,
            streamingMessageId := None\<rparr>"
    by (simp add: catchRejected_def Let_def)
  have c4: "\<not> (instanceofError e \<and> err_name e \<noteq> ''AbortError'') \<longrightarrow>
      catchRejected fl e s = s\<lparr>isLoading := False, streamingMessageId := None\<rparr>"
    by (auto simp: catchRejected_def Let_def)
  show ?thesis
    by (intro conjI) (fact g1 g2 g3 g4 rej http http2 nobody one fin abort fail c1 c2 c3 c4)+
qed

theorem C2_terminal_callbacks_witness:
  "streamChat Groq samplePayload
     (FetchResolves \<lparr>ok = True, responseText = Inr [],
        body = Some \<lparr>chunks = [sampleChunk], ending = StreamDone\<rparr>\<rparr>)
     = ([OnToken ''Hel'', OnToken ''lo'', OnComplete ''Hello''], Resolved) \<and>
   length (filter isTerminal (fst (streamChat Groq samplePayload
     (FetchResolves \<lparr>ok = True, responseText = Inr [],
        body = Some \<lparr>chunks = [sampleChunk], ending = StreamDone\<rparr>\<rparr>)))) = 1 \<and>
   streamChat Groq samplePayload
     (FetchResolves \<lparr>ok = True, responseText = Inr [],
        body = Some \<lparr>chunks = [sampleChunk], ending = ReadThrows (newError ''network error'')\<rparr>\<rparr>)
     = ([OnToken ''Hel'', OnToken ''lo'', OnError (newError ''network error'')], Resolved) \<and>
   streamChat Groq samplePayload
     (FetchResolves \<lparr>ok = False, responseText = Inr ''Unauthorized'', body = None\<rparr>)
     = ([], Rejected (newError ''Groq API error: Unauthorized'')) \<and>
   catchRejected SendFlow (newError ''Groq API error: Unauthorized'') initialPage
     = initialPage\<lparr>error := Some ''Groq API error: Unauthorized'', isLoading := False,
         streamingMessageId := None\<rparr>"
proof -
  let ?e = "newError ''network error''"
  let ?b = "\<lparr>chunks = [sampleChunk], ending = ReadThrows ?e\<rparr>"
  let ?r = "\<lparr>ok = True, responseText = Inr [], body = Some ?b\<rparr>"
  let ?r2 = "\<lparr>ok = False, responseText = Inr ''Unauthorized'', body = None\<rparr>"
  let ?b3 = "\<lparr>chunks = [sampleChunk], ending = StreamDone\<rparr>"
  let ?r3 = "\<lparr>ok = True, responseText = Inr [], body = Some ?b3\<rparr>"
  have h1: "ok ?r \<and> body ?r = Some ?b \<and> ending ?b = ReadThrows ?e \<and>
      \<not> (instanceofError ?e \<and> err_name ?e = ''AbortError'')"
    by (simp add: newError_def)
  have h2: "\<not> ok ?r2 \<and> responseText ?r2 = Inr ''Unauthorized''"
    by simp
  have h3: "ok ?r3 \<and> body ?r3 = Some ?b3" "ok ?r3 \<and> body ?r3 = Some ?b3 \<and> ending ?b3 = StreamDone"
    by simp_all
  have h4: "\<not> (SendFlow = SendFlow \<and>
      str_includes (apiErrorPrefix Groq @ ''Unauthorized'') ''Developer instruction is not enabled'')"
    by simp
  have run: "streamChat Groq samplePayload (FetchResolves ?r)
      = ([OnToken ''Hel'', OnToken ''lo'', OnError ?e], Resolved)"
    by (simp add: streamChat_def sample_readBody_fail)
  have run3: "streamChat Groq samplePayload (FetchResolves ?r3)
      = ([OnToken ''Hel'', OnToken ''lo'', OnComplete ''Hello''], Resolved)"
    by (simp add: streamChat_def sample_readBody_done)
  note T = C2_terminal_callbacks [of Groq samplePayload "FetchResolves ?r" ?e ?r2
      "''Unauthorized''" ?b ?e SendFlow initialPage]
  from T have ai: "\<not> ok ?r2 \<and> responseText ?r2 = Inr ''Unauthorized'' \<longrightarrow>
      streamChat Groq samplePayload (FetchResolves ?r2)
        = ([], Rejected (newError (apiErrorPrefix Groq @ ''Unauthorized'')))"
    by (elim conjE) assumption
  from T have ci: "\<not> (SendFlow = SendFlow \<and>
        str_includes (apiErrorPrefix Groq @ ''Unauthorized'')
          ''Developer instruction is not enabled'') \<longrightarrow>
      catchRejected SendFlow (newError (apiErrorPrefix Groq @ ''Unauthorized'')) initialPage
        = initialPage\<lparr>error := Some (apiErrorPrefix Groq @ ''Unauthorized''),
            isLoading := False, streamingMessageId := None\<rparr>"
    by (elim conjE) assumption
  note T3 = C2_terminal_callbacks [of Groq samplePayload "FetchResolves ?r3" ?e ?r3
      "''Unauthorized''" ?b3 ?e SendFlow initialPage]
  from T3 have di: "ok ?r3 \<and> body ?r3 = Some ?b3 \<longrightarrow>
      snd (streamChat Groq samplePayload (FetchResolves ?r3)) = Resolved \<and>
      length (filter isTerminal (fst (streamChat Groq samplePayload (FetchResolves ?r3)))) = 1"
    by (elim conjE) assumption
  from ai h2 have a: "streamChat Groq samplePayload (FetchResolves ?r2)
      = ([], Rejected (newError (apiErrorPrefix Groq @ ''Unauthorized'')))"
    by (rule mp)
  from ci h4 have c: "catchRejected SendFlow (newError (apiErrorPrefix Groq @ ''Unauthorized''))
        initialPage
      = initialPage\<lparr>error := Some (apiErrorPrefix Groq @ ''Unauthorized''),
          isLoading := False, streamingMessageId := None\<rparr>"
    by (rule mp)
  from di h3(1) have d:
    "length (filter isTerminal (fst (streamChat Groq samplePayload (FetchResolves ?r3)))) = 1"
    by blast
  from a c d run run3 show ?thesis by simp
qed

text \<open>
  C2 as stated fails: on a non-success status the xAI adapter throws before its
  \<open>try\<close>, so the run makes no callback at all (neither \<open>onComplete\<close> nor \<open>onError\<close>)
  and its promise rejects.
\<close>

theorem C2_http_error_counterexample:
  "streamChat Xai samplePayload
     (FetchResolves \<lparr>ok = False, responseText = Inr ''Unauthorized'', body = None\<rparr>)
     = ([], Rejected (newError ''xAI API error: Unauthorized'')) \<and>
   filter isTerminal (fst (streamChat Xai samplePayload
     (FetchResolves \<lparr>ok = False, responseText = Inr ''Unauthorized'', body = None\<rparr>))) = []"
  by (simp add: streamChat_def)

section \<open>Properties of the orchestrator\<close>





















text \<open>
  C6. When the selected provider has no stored key (none, or the empty string) or no
  model is selected, Send only sets the configuration error: it calls no adapter, and
  the conversation and the stored conversations are what they were.
\<close>

theorem C6_send_needs_configuration:
  assumes "apiKeys s (selectedProvider s) = None \<or> apiKeys s (selectedProvider s) = Some [] \<or>
           selectedModel s = []"
  shows "handleSend env text atts s = (s\<lparr>error := Some CONFIG_ERROR\<rparr>, NotLaunched) \<and>
         snd (handleSend env text atts s) = NotLaunched \<and>
         error (fst (handleSend env text atts s)) = Some CONFIG_ERROR \<and>
         conversation (fst (handleSend env text atts s)) = conversation s \<and>
         stored (fst (handleSend env text atts s)) = stored s \<and>
         isLoading (fst (handleSend env text atts s)) = isLoading s"
proof -
  have "handleSend env text atts s = (s\<lparr>error := Some CONFIG_ERROR\<rparr>, NotLaunched)"
    using assms by (auto simp: handleSend_def split: option.splits)
  then show ?thesis by simp
qed

theorem C6_send_needs_configuration_witness:
  "apiKeys (samplePageNoKey []) (selectedProvider (samplePageNoKey [])) = None \<and>
   handleSend (sampleEnv ''s'') ''Hello'' None (samplePageNoKey [])
     = ((samplePageNoKey [])\<lparr>error := Some CONFIG_ERROR\<rparr>, NotLaunched) \<and>
   conversation (fst (handleSend (sampleEnv ''s'') ''Hello'' None (samplePageNoKey [])))
     = Some (sampleConversation ''a'' [])"
proof -
  have h: "apiKeys (samplePageNoKey []) (selectedProvider (samplePageNoKey [])) = None"
    by (simp add: samplePageNoKey_def initialPage_def)
  have c: "conversation (samplePageNoKey []) = Some (sampleConversation ''a'' [])"
    by (simp add: samplePageNoKey_def initialPage_def)
  from C6_send_needs_configuration [of "samplePageNoKey []" "sampleEnv ''s''" "''Hello''" None]
    h c
  show ?thesis by simp
qed

text \<open>
  C3. Take any conversation and any message at index \<open>i\<close> of its list, in particular
  any user message (ids are unique within a conversation, so the id of that message
  does not occur before \<open>i\<close>). Whenever Retry on that message calls the adapter, the
  conversation at that moment, on the page and in the store, has exactly the messages
  \<open>0..i\<close> followed by one newly created assistant placeholder with empty content: every
  later message is gone. Retry does call the adapter when a key is stored for the
  selected provider and a model is selected; otherwise it only sets the configuration
  error, starts no request and leaves the conversation as it was.
\<close>

theorem C3_retry_truncates:
  assumes "conversation s = Some conv" and "i < length (messages conv)"
    and "\<forall>j < i. msg_id (messages conv ! j) \<noteq> msg_id (messages conv ! i)"
  shows "(\<forall>s1 call.
            handleRetry env (msg_id (messages conv ! i)) s = (s1, Launched call) \<longrightarrow>
              conversation s1 =
                Some (conv\<lparr>messages := take (Suc i) (messages conv) @ [placeholder env],
                        updatedAt := nowUpdated env\<rparr>) \<and>
              map_option messages (conversation s1)
                = Some (take (Suc i) (messages conv) @ [placeholder env]) \<and>
              getConversation (stored s1) (conv_id conv) = conversation s1 \<and>
              streamingMessageId s1 = Some (uuidAssistant env) \<and>
              targetId call = uuidAssistant env) \<and>
         msg_id (placeholder env) = uuidAssistant env \<and>
         role (placeholder env) = Assistant \<and>
         content (placeholder env) = [] \<and>
         (apiKeys s (selectedProvider s) = Some key \<and> key \<noteq> [] \<and> selectedModel s \<noteq> [] \<longrightarrow>
           (\<exists>s1 call.
              handleRetry env (msg_id (messages conv ! i)) s = (s1, Launched call) \<and>
              conversation s1 =
                Some (conv\<lparr>messages := take (Suc i) (messages conv) @ [placeholder env],
                        updatedAt := nowUpdated env\<rparr>))) \<and>
         (apiKeys s (selectedProvider s) = None \<or> apiKeys s (selectedProvider s) = Some [] \<or>
          selectedModel s = [] \<longrightarrow>
            handleRetry env (msg_id (messages conv ! i)) s
              = (s\<lparr>error := Some CONFIG_ERROR\<rparr>, NotLaunched))"
proof -
  have idx: "findIndex (\<lambda>m. msg_id m = msg_id (messages conv ! i)) (messages conv) = int i"
    using assms(2,3) by (intro findIndex_unique) auto
  have n: "nat (int i + 1) = Suc i" by simp
  show ?thesis
    using assms(1)
    by (auto simp: handleRetry_def Let_def idx n getConversation_save placeholder_def
        split: option.splits)
qed

lemma sample_messages [simp]:
  "msg_id (sampleMessage ident r text) = ident"
  "role (sampleMessage ident r text) = r"
  "content (sampleMessage ident r text) = text"
  by (simp_all add: sampleMessage_def)

lemma samplePage_simps [simp]:
  "conversation (samplePage ms) = Some (sampleConversation ''a'' ms)"
  "apiKeys (samplePage ms) (selectedProvider (samplePage ms)) = Some ''sk-test''"
  "selectedModel (samplePage ms) = ''gpt-4o''"
  "conversation (samplePageNoKey ms) = Some (sampleConversation ''a'' ms)"
  "apiKeys (samplePageNoKey ms) (selectedProvider (samplePageNoKey ms)) = None"
  by (simp_all add: samplePage_def samplePageNoKey_def initialPage_def)

lemma messages_sampleConversation [simp]: "messages (sampleConversation tag ms) = ms"
  by (simp add: sampleConversation_def)

theorem C3_retry_truncates_witness:
  "(\<exists>s1 call.
      handleRetry (sampleEnv ''r'') ''u1''
        (samplePage [sampleMessage ''u1'' User ''Hi'', sampleMessage ''a1'' Assistant ''Hello!'',
                     sampleMessage ''u2'' User ''More'', sampleMessage ''a2'' Assistant ''Sure''])
        = (s1, Launched call) \<and>
      map_option messages (conversation s1)
        = Some [sampleMessage ''u1'' User ''Hi'', placeholder (sampleEnv ''r'')] \<and>
      targetId call = ''asst-r'') \<and>
   handleRetry (sampleEnv ''r'') ''u1''
     (samplePageNoKey [sampleMessage ''u1'' User ''Hi'', sampleMessage ''a1'' Assistant ''Hello!''])
     = ((samplePageNoKey [sampleMessage ''u1'' User ''Hi'',
            sampleMessage ''a1'' Assistant ''Hello!''])\<lparr>error := Some CONFIG_ERROR\<rparr>,
        NotLaunched)"
proof -
  let ?ms = "[sampleMessage ''u1'' User ''Hi'', sampleMessage ''a1'' Assistant ''Hello!'',
              sampleMessage ''u2'' User ''More'', sampleMessage ''a2'' Assistant ''Sure'']"
  let ?ms2 = "[sampleMessage ''u1'' User ''Hi'', sampleMessage ''a1'' Assistant ''Hello!'']"
  have a: "conversation (samplePage ?ms) = Some (sampleConversation ''a'' ?ms)"
    and b: "0 < length (messages (sampleConversation ''a'' ?ms))"
    and c: "\<forall>j < 0. msg_id (messages (sampleConversation ''a'' ?ms) ! j)
              \<noteq> msg_id (messages (sampleConversation ''a'' ?ms) ! 0)"
    by simp_all
  have k: "apiKeys (samplePage ?ms) (selectedProvider (samplePage ?ms)) = Some ''sk-test'' \<and>
      ''sk-test'' \<noteq> [] \<and> selectedModel (samplePage ?ms) \<noteq> []"
    by simp
  have a2: "conversation (samplePageNoKey ?ms2) = Some (sampleConversation ''a'' ?ms2)"
    and b2: "0 < length (messages (sampleConversation ''a'' ?ms2))"
    and c2: "\<forall>j < 0. msg_id (messages (sampleConversation ''a'' ?ms2) ! j)
              \<noteq> msg_id (messages (sampleConversation ''a'' ?ms2) ! 0)"
    by simp_all
  have k2: "apiKeys (samplePageNoKey ?ms2) (selectedProvider (samplePageNoKey ?ms2)) = None"
    by simp
  from C3_retry_truncates [OF a b c, where key = "''sk-test''" and env = "sampleEnv ''r''"] k
  obtain s1 call where 1:
    "handleRetry (sampleEnv ''r'') (msg_id (messages (sampleConversation ''a'' ?ms) ! 0))
       (samplePage ?ms) = (s1, Launched call)"
    "conversation s1 =
       Some ((sampleConversation ''a'' ?ms)
         \<lparr>messages := take (Suc 0) (messages (sampleConversation ''a'' ?ms))
             @ [placeholder (sampleEnv ''r'')],
          updatedAt := nowUpdated (sampleEnv ''r'')\<rparr>)"
    "targetId call = uuidAssistant (sampleEnv ''r'')"
    by blast
  from C3_retry_truncates [OF a2 b2 c2, where env = "sampleEnv ''r''"] k2
  have 2: "handleRetry (sampleEnv ''r'') (msg_id (messages (sampleConversation ''a'' ?ms2) ! 0))
       (samplePageNoKey ?ms2)
     = ((samplePageNoKey ?ms2)\<lparr>error := Some CONFIG_ERROR\<rparr>, NotLaunched)"
    by blast
  from 1 have "handleRetry (sampleEnv ''r'') ''u1'' (samplePage ?ms) = (s1, Launched call) \<and>
      map_option messages (conversation s1)
        = Some [sampleMessage ''u1'' User ''Hi'', placeholder (sampleEnv ''r'')] \<and>
      targetId call = ''asst-r''"
    by (simp add: sampleEnv_def)
  then have "\<exists>s1 call. handleRetry (sampleEnv ''r'') ''u1'' (samplePage ?ms) = (s1, Launched call) \<and>
      map_option messages (conversation s1)
        = Some [sampleMessage ''u1'' User ''Hi'', placeholder (sampleEnv ''r'')] \<and>
      targetId call = ''asst-r''"
    by blast
  moreover from 2 have "handleRetry (sampleEnv ''r'') ''u1'' (samplePageNoKey ?ms2)
     = ((samplePageNoKey ?ms2)\<lparr>error := Some CONFIG_ERROR\<rparr>, NotLaunched)"
    by simp
  ultimately show ?thesis by blast
qed






end
